theory Spec2Isabelle
  imports Complex_Main
begin

section \<open>JavaScript values used by the SDK\<close>

text \<open>
  The SDK is TypeScript on top of the polkadot-js API.  Its own code manipulates
  three kinds of JavaScript values that matter here: strings, BigInts and Numbers
  (IEEE-754 doubles).  Exceptions are modelled as values of \<open>js_error\<close>; a function
  that may throw returns \<open>js_error + 'a\<close> with \<open>Inl\<close> for the exception.
\<close>

datatype js_error =
    SyntaxError     \<comment> \<open>\<open>BigInt(string)\<close> on a string that is no integer literal\<close>
  | RangeError      \<comment> \<open>\<open>BigInt(number)\<close> on a number that is no integer (NaN, Infinity)\<close>
  | UnwrapNone      \<comment> \<open>\<open>Option.unwrap()\<close> on a None value\<close>
  | DecodeFailure   \<comment> \<open>any other exception thrown while reading a raw chain value\<close>
  | MetaErrorNotFound  \<comment> \<open>\<open>registry.findMetaError\<close> on a descriptor it cannot resolve\<close>
  | TypeError       \<comment> \<open>a property read on \<open>undefined\<close>\<close>
  | ApiError        \<comment> \<open>an exception thrown by a call constructor of the API\<close>

subsection \<open>Strings and BigInt\<close>

text \<open>
  A string is a list of 8-bit code units.  \<open>BigInt(s)\<close> follows StringToBigInt of
  ECMAScript: surrounding white space is trimmed, the empty string is \<open>0n\<close>, a
  decimal literal may carry a sign, and the prefixes \<open>0x\<close>, \<open>0o\<close>, \<open>0b\<close> select
  another radix (without sign).  Anything else throws a SyntaxError.
\<close>

definition is_ws :: "char \<Rightarrow> bool" where
  "is_ws c = (of_char c \<in> set [9, 10, 11, 12, 13, 32, 160 :: nat])"

definition trim :: "string \<Rightarrow> string" where
  "trim s = rev (dropWhile is_ws (rev (dropWhile is_ws s)))"

definition digit_of :: "nat \<Rightarrow> char \<Rightarrow> nat option" where
  "digit_of radix c =
     (let n = (of_char c :: nat);
          v = (if 48 \<le> n \<and> n \<le> 57 then Some (n - 48)
               else if 97 \<le> n \<and> n \<le> 122 then Some (n - 87)
               else if 65 \<le> n \<and> n \<le> 90 then Some (n - 55)
               else None)
      in case v of None \<Rightarrow> None | Some d \<Rightarrow> if d < radix then Some d else None)"

fun parse_digits_acc :: "nat \<Rightarrow> nat \<Rightarrow> string \<Rightarrow> nat option" where
  "parse_digits_acc radix acc [] = Some acc"
| "parse_digits_acc radix acc (c # cs) =
     (case digit_of radix c of
        None \<Rightarrow> None
      | Some d \<Rightarrow> parse_digits_acc radix (acc * radix + d) cs)"

definition parse_digits :: "nat \<Rightarrow> string \<Rightarrow> int option" where
  "parse_digits radix s =
     (if s = [] then None else map_option int (parse_digits_acc radix 0 s))"

definition StrIntegerLiteral :: "string \<Rightarrow> int option" where
  "StrIntegerLiteral t =
     (if take 2 t \<in> set [''0x'', ''0X''] then parse_digits 16 (drop 2 t)
      else if take 2 t \<in> set [''0o'', ''0O''] then parse_digits 8 (drop 2 t)
      else if take 2 t \<in> set [''0b'', ''0B''] then parse_digits 2 (drop 2 t)
      else if take 1 t = ''+'' then parse_digits 10 (drop 1 t)
      else if take 1 t = ''-'' then map_option uminus (parse_digits 10 (drop 1 t))
      else parse_digits 10 t)"

definition StringToBigInt :: "string \<Rightarrow> int option" where
  "StringToBigInt s = (let t = trim s in if t = [] then Some 0 else StrIntegerLiteral t)"

definition BigInt_of_string :: "string \<Rightarrow> js_error + int" where
  "BigInt_of_string s = (case StringToBigInt s of None \<Rightarrow> Inl SyntaxError | Some i \<Rightarrow> Inr i)"

text \<open>The decimal digits, as code units.\<close>

definition is_dec :: "char \<Rightarrow> bool" where
  "is_dec c = (48 \<le> (of_char c :: nat) \<and> (of_char c :: nat) \<le> 57)"

text \<open>\<open>toString()\<close> of a BigInt, and of an unsigned chain integer, in radix 10.\<close>

definition digit_char :: "nat \<Rightarrow> char" where
  "digit_char d = char_of (48 + d)"

fun dec_digits :: "nat \<Rightarrow> string" where
  "dec_digits n = (if n < 10 then [digit_char n] else dec_digits (n div 10) @ [digit_char (n mod 10)])"

declare dec_digits.simps [simp del]

definition BigInt_toString :: "int \<Rightarrow> string" where
  "BigInt_toString i = (if i < 0 then CHR ''-'' # dec_digits (nat (- i)) else dec_digits (nat i))"

subsection \<open>Numbers\<close>

text \<open>
  A JavaScript Number is an IEEE-754 binary64 value.  \<open>Finite s m e\<close> is the
  value \<open>(-1)^s * m * 2^e\<close>; a double has \<open>m < 2^53\<close> and \<open>-1074 \<le> e \<le> 971\<close>.
  The representation is not unique, which does no harm: every operation below
  depends on the value only.
\<close>

datatype number = Finite bool nat int | Infinity bool | NaN


text \<open>The real number that \<open>Finite s m e\<close> stands for.\<close>

definition number_value :: "bool \<Rightarrow> nat \<Rightarrow> int \<Rightarrow> real" where
  "number_value s m e = (if s then - 1 else 1) * real m * 2 powi e"

fun bit_length :: "nat \<Rightarrow> nat" where
  "bit_length n = (if n = 0 then 0 else Suc (bit_length (n div 2)))"

declare bit_length.simps [simp del]

text \<open>
  Rounding of the exact value \<open>(-1)^s * M * 2^E\<close> to the nearest double, ties to
  even: \<open>k\<close> low bits are dropped so that at most 53 bits remain and the exponent
  is at least -1074; a result of magnitude \<open>2^1024\<close> or more overflows to Infinity.
\<close>

definition round_to_double :: "bool \<Rightarrow> nat \<Rightarrow> int \<Rightarrow> number" where
  "round_to_double s M E =
     (let k = nat (max 0 (max (int (bit_length M) - 53) (- 1074 - E)));
          q = M div 2 ^ k;
          r = M mod 2 ^ k;
          q' = (if 2 ^ k < 2 * r \<or> (2 * r = 2 ^ k \<and> odd q) then q + 1 else q);
          E' = E + int k
      in if 0 \<le> E' \<and> 2 ^ 1024 \<le> q' * 2 ^ nat E' then Infinity s else Finite s q' E')"

text \<open>\<open>x * y\<close> on Numbers.\<close>

definition Number_multiply :: "number \<Rightarrow> number \<Rightarrow> number" where
  "Number_multiply x y =
     (case (x, y) of
        (NaN, _) \<Rightarrow> NaN
      | (_, NaN) \<Rightarrow> NaN
      | (Infinity s, Infinity t) \<Rightarrow> Infinity (s \<noteq> t)
      | (Infinity s, Finite t m e) \<Rightarrow> if m = 0 then NaN else Infinity (s \<noteq> t)
      | (Finite s m e, Infinity t) \<Rightarrow> if m = 0 then NaN else Infinity (s \<noteq> t)
      | (Finite s m e, Finite t n f) \<Rightarrow> round_to_double (s \<noteq> t) (m * n) (e + f))"

text \<open>
  \<open>10 ** decimals\<close> for a non-negative integer \<open>decimals\<close>: the double nearest to
  the power, which is the power itself up to \<open>10^22\<close>.  Beyond that an engine may
  return a neighbouring double; no property below concerns such exponents.
\<close>

definition pow10 :: "nat \<Rightarrow> number" where
  "pow10 decimals = round_to_double False (10 ^ decimals) 0"

text \<open>
  \<open>Math.floor\<close>: the greatest integer not above the value (integer division on
  \<open>int\<close> rounds down), with the sign of the argument; NaN and the infinities
  are returned unchanged.
\<close>

definition Math_floor :: "number \<Rightarrow> number" where
  "Math_floor x =
     (case x of
        Finite s m e \<Rightarrow>
          if 0 \<le> e then Finite s m e
          else
            (let i = (if s then - int m else int m) div 2 ^ nat (- e)
             in Finite s (nat \<bar>i\<bar>) 0)
      | _ \<Rightarrow> x)"

text \<open>\<open>BigInt(x)\<close> on a Number: a RangeError unless \<open>x\<close> is an integer.\<close>

definition BigInt_of_number :: "number \<Rightarrow> js_error + int" where
  "BigInt_of_number x =
     (case x of
        Finite s m e \<Rightarrow>
          if 0 \<le> e then Inr ((if s then - 1 else 1) * int m * 2 ^ nat e)
          else if 2 ^ nat (- e) dvd m then Inr ((if s then - 1 else 1) * int (m div 2 ^ nat (- e)))
          else Inl RangeError
      | _ \<Rightarrow> Inl RangeError)"

section \<open>Amounts\<close>

text \<open>An amount argument has the TypeScript type \<open>string | number\<close>.\<close>

datatype amount = Str string | Num number

text \<open>
  The expression \<open>BigInt(Math.floor(amount * (10 ** decimals)))\<close>, which is the
  numeric branch of every conversion.
\<close>

definition floor_scaled :: "number \<Rightarrow> nat \<Rightarrow> js_error + int" where
  "floor_scaled x decimals = BigInt_of_number (Math_floor (Number_multiply x (pow10 decimals)))"

text \<open>The table \<open>DECIMALS\<close> of the constants module, used by \<open>transfer\<close>.\<close>

datatype NetworkName = polkadot | kusama | westend | rococo

definition DECIMALS :: "NetworkName \<Rightarrow> nat" where
  "DECIMALS network = (case network of polkadot \<Rightarrow> 10 | kusama \<Rightarrow> 12 | westend \<Rightarrow> 12 | rococo \<Rightarrow> 12)"

text \<open>
  \<open>this.api.registry.chainDecimals[0] || 10\<close>, used by the staking and governance
  operations: a missing first element and the value 0 both give 10.
\<close>

definition registry_decimals :: "nat list \<Rightarrow> nat" where
  "registry_decimals chainDecimals =
     (case chainDecimals of [] \<Rightarrow> 10 | d # _ \<Rightarrow> if d = 0 then 10 else d)"

text \<open>
  Lines 122 to 125 of \<open>ChainManager.transfer\<close>:
  \<open>typeof amount === 'string' ? BigInt(amount) * BigInt(10 ** decimals)
     : BigInt(Math.floor(amount * (10 ** decimals)))\<close>.
\<close>

definition transferAmount :: "NetworkName \<Rightarrow> amount \<Rightarrow> js_error + int" where
  "transferAmount network amt =
     (let decimals = DECIMALS network
      in case amt of
           Str s \<Rightarrow>
             (case BigInt_of_string s of
                Inl e \<Rightarrow> Inl e
              | Inr a \<Rightarrow>
                  (case BigInt_of_number (pow10 decimals) of
                     Inl e \<Rightarrow> Inl e
                   | Inr p \<Rightarrow> Inr (a * p)))
         | Num x \<Rightarrow> floor_scaled x decimals)"

text \<open>
  The conversion of \<open>bond\<close>, \<open>bondExtra\<close>, \<open>unbond\<close>, \<open>voteOnReferendum\<close> and
  \<open>submitTreasuryProposal\<close>, the same expression in each:
  \<open>typeof amount === 'string' ? BigInt(amount)
     : BigInt(Math.floor(amount * (10 ** decimals)))\<close>.
\<close>

definition chainAmount :: "nat list \<Rightarrow> amount \<Rightarrow> js_error + int" where
  "chainAmount chainDecimals amt =
     (let decimals = registry_decimals chainDecimals
      in case amt of
           Str s \<Rightarrow> BigInt_of_string s
         | Num x \<Rightarrow> floor_scaled x decimals)"

text \<open>
  The call each operation asks the API to construct, \<open>api.tx.<pallet>.<method>(...)\<close>,
  with its arguments.  In the functions \<open>transfer_tx\<close> to \<open>proposalTx\<close>, \<open>Inl\<close> is
  an exception thrown before the constructor is called.
\<close>

datatype vote_direction = aye | nay

datatype call =
    balances_transferKeepAlive string int
  | staking_bond string int string
  | staking_bondExtra int
  | staking_unbond int
  | convictionVoting_vote nat vote_direction int
  | democracy_vote nat vote_direction nat
  | treasury_proposeSpend int string

record TransferOptions =
  from_address :: string     \<comment> \<open>the field \<open>from\<close>\<close>
  to_address :: string       \<comment> \<open>the field \<open>to\<close>\<close>
  transfer_amount :: amount  \<comment> \<open>the field \<open>amount\<close>\<close>
  tip :: "amount option"

definition transfer_tx :: "NetworkName \<Rightarrow> TransferOptions \<Rightarrow> js_error + call" where
  "transfer_tx network options =
     (case transferAmount network (transfer_amount options) of
        Inl e \<Rightarrow> Inl e
      | Inr a \<Rightarrow> Inr (balances_transferKeepAlive (to_address options) a))"

definition bondTx :: "nat list \<Rightarrow> string \<Rightarrow> amount \<Rightarrow> js_error + call" where
  "bondTx chainDecimals controllerAccount amt =
     (case chainAmount chainDecimals amt of
        Inl e \<Rightarrow> Inl e
      | Inr bondAmount \<Rightarrow> Inr (staking_bond controllerAccount bondAmount ''Staked''))"

definition bondExtraTx :: "nat list \<Rightarrow> amount \<Rightarrow> js_error + call" where
  "bondExtraTx chainDecimals amt =
     (case chainAmount chainDecimals amt of
        Inl e \<Rightarrow> Inl e
      | Inr bondAmount \<Rightarrow> Inr (staking_bondExtra bondAmount))"

definition unbondTx :: "nat list \<Rightarrow> amount \<Rightarrow> js_error + call" where
  "unbondTx chainDecimals amt =
     (case chainAmount chainDecimals amt of
        Inl e \<Rightarrow> Inl e
      | Inr unbondAmount \<Rightarrow> Inr (staking_unbond unbondAmount))"

text \<open>
  \<open>voteOnReferendum\<close> converts the amount first and then chooses the pallet:
  \<open>this.api.tx.convictionVoting ? this.api.tx.convictionVoting.vote(...)
     : this.api.tx.democracy.vote(...)\<close>.
  \<open>hasConvictionVoting\<close> and \<open>hasDemocracy\<close> say which of the two pallets the API
  has; with neither, reading \<open>vote\<close> of \<open>undefined\<close> throws.  The democracy call
  carries the conviction and not the amount.
\<close>

definition voteTx ::
  "nat list \<Rightarrow> bool \<Rightarrow> bool \<Rightarrow> nat \<Rightarrow> vote_direction \<Rightarrow> nat \<Rightarrow> amount \<Rightarrow> js_error + call" where
  "voteTx chainDecimals hasConvictionVoting hasDemocracy referendumIndex vote conviction amt =
     (case chainAmount chainDecimals amt of
        Inl e \<Rightarrow> Inl e
      | Inr voteAmount \<Rightarrow>
          if hasConvictionVoting then Inr (convictionVoting_vote referendumIndex vote voteAmount)
          else if hasDemocracy then Inr (democracy_vote referendumIndex vote conviction)
          else Inl TypeError)"

definition proposalTx :: "nat list \<Rightarrow> amount \<Rightarrow> string \<Rightarrow> js_error + call" where
  "proposalTx chainDecimals amt beneficiary =
     (case chainAmount chainDecimals amt of
        Inl e \<Rightarrow> Inl e
      | Inr proposalValue \<Rightarrow> Inr (treasury_proposeSpend proposalValue beneficiary))"










section \<open>Tracking a submitted transaction\<close>

text \<open>
  \<open>signAndSend\<close> calls the callback of an operation with a result object for
  every status update.  The callback reads the status (an enumeration, of which
  it tests \<open>isInBlock\<close>, \<open>isError\<close>, \<open>isDropped\<close>, \<open>isInvalid\<close> and reads \<open>type\<close>
  and \<open>asInBlock\<close>), the event records and the optional dispatch error.
\<close>

datatype extrinsic_status =
    Future | Ready | Broadcast
  | InBlock string
  | Retracted string | FinalityTimeout string
  | Finalized string
  | Usurped string
  | Dropped | Invalid
  | Error   \<comment> \<open>the status on which \<open>status.isError\<close> holds\<close>

definition status_type :: "extrinsic_status \<Rightarrow> string" where
  "status_type st =
     (case st of
        Future \<Rightarrow> ''Future'' | Ready \<Rightarrow> ''Ready'' | Broadcast \<Rightarrow> ''Broadcast''
      | InBlock _ \<Rightarrow> ''InBlock'' | Retracted _ \<Rightarrow> ''Retracted''
      | FinalityTimeout _ \<Rightarrow> ''FinalityTimeout'' | Finalized _ \<Rightarrow> ''Finalized''
      | Usurped _ \<Rightarrow> ''Usurped'' | Dropped \<Rightarrow> ''Dropped'' | Invalid \<Rightarrow> ''Invalid''
      | Error \<Rightarrow> ''Error'')"

record module_error =
  pallet_index :: nat   \<comment> \<open>the field \<open>index\<close> of \<open>dispatchError.asModule\<close>\<close>
  error_index :: nat    \<comment> \<open>the field \<open>error\<close>\<close>

datatype dispatch_error = Module module_error | NonModule

record EventRecord =
  phase :: string   \<comment> \<open>\<open>record.phase.toString()\<close>\<close>
  event :: string   \<comment> \<open>\<open>record.event.toHuman()\<close>\<close>

record submittable_result =
  result_status :: extrinsic_status           \<comment> \<open>the field \<open>status\<close>\<close>
  result_events :: "EventRecord list"          \<comment> \<open>the field \<open>events\<close>\<close>
  dispatchError :: "dispatch_error option"

text \<open>
  The metadata registry: \<open>findMetaError\<close> returns the section, the name and the
  documentation lines of a module error, or throws (\<open>None\<close>) when it cannot
  resolve the descriptor.
\<close>

record registry_error =
  err_section :: string        \<comment> \<open>the field \<open>section\<close>\<close>
  err_name :: string           \<comment> \<open>the field \<open>name\<close>\<close>
  err_docs :: "string list"    \<comment> \<open>the field \<open>docs\<close>\<close>

type_synonym registry = "module_error \<Rightarrow> registry_error option"

text \<open>An array of strings inside a template literal: the elements joined by commas.\<close>

fun array_toString :: "string list \<Rightarrow> string" where
  "array_toString [] = []"
| "array_toString [x] = x"
| "array_toString (x # y # ys) = x @ '','' @ array_toString (y # ys)"

text \<open>
  What one call of the callback does: it calls \<open>resolve\<close>, calls \<open>reject\<close> with an
  \<open>Error\<close> of the given message, does nothing, or throws.
\<close>

datatype 'a callback_outcome = Resolve 'a | Reject string | NoAction | Throws js_error

text \<open>
  The callback, which is the same in every operation up to \<open>label\<close>, the first
  words of its messages, and \<open>mk\<close>, the value it resolves with.  No \<open>try\<close>
  surrounds the call of \<open>findMetaError\<close>.
\<close>

definition status_callback ::
  "string \<Rightarrow> registry \<Rightarrow> (string \<Rightarrow> EventRecord list \<Rightarrow> 'a) \<Rightarrow> submittable_result
     \<Rightarrow> 'a callback_outcome" where
  "status_callback label findMetaError mk r =
     (case result_status r of
        InBlock blockHash \<Rightarrow>
          (case dispatchError r of
             Some (Module m) \<Rightarrow>
               (case findMetaError m of
                  None \<Rightarrow> Throws MetaErrorNotFound
                | Some decoded \<Rightarrow>
                    Reject (err_section decoded @ ''.'' @ err_name decoded @ '': ''
                            @ array_toString (err_docs decoded)))
           | Some NonModule \<Rightarrow> Reject (label @ '' failed'')
           | None \<Rightarrow> Resolve (mk blockHash (result_events r)))
      | st \<Rightarrow>
          if st = Error \<or> st = Dropped \<or> st = Invalid
          then Reject (label @ '' failed with status: '' @ status_type st)
          else NoAction)"

text \<open>The value \<open>transfer\<close> resolves with, and its callback (lines 131 to 159).\<close>

record TransferResult =
  tx_hash :: string                            \<comment> \<open>the field \<open>hash\<close>\<close>
  block_hash :: "string option"                \<comment> \<open>the field \<open>blockHash\<close>\<close>
  success :: bool
  tx_events :: "(string \<times> string) list option"  \<comment> \<open>the field \<open>events\<close>\<close>

definition transfer_callback ::
  "registry \<Rightarrow> string \<Rightarrow> submittable_result \<Rightarrow> TransferResult callback_outcome" where
  "transfer_callback findMetaError txHash =
     status_callback ''Transaction'' findMetaError
       (\<lambda>blockHash evs. \<lparr>tx_hash = txHash, block_hash = Some blockHash, success = True,
                          tx_events = Some (map (\<lambda>record. (phase record, event record)) evs)\<rparr>)"

text \<open>
  The callbacks of the staking and governance operations, which resolve with the
  hash of the extrinsic alone.
\<close>

definition bond_callback :: "registry \<Rightarrow> string \<Rightarrow> submittable_result \<Rightarrow> string callback_outcome" where
  "bond_callback findMetaError txHash = status_callback ''Bonding'' findMetaError (\<lambda>_ _. txHash)"

definition bondExtra_callback :: "registry \<Rightarrow> string \<Rightarrow> submittable_result \<Rightarrow> string callback_outcome" where
  "bondExtra_callback findMetaError txHash = status_callback ''Bond extra'' findMetaError (\<lambda>_ _. txHash)"

definition nominate_callback :: "registry \<Rightarrow> string \<Rightarrow> submittable_result \<Rightarrow> string callback_outcome" where
  "nominate_callback findMetaError txHash = status_callback ''Nomination'' findMetaError (\<lambda>_ _. txHash)"

definition unbond_callback :: "registry \<Rightarrow> string \<Rightarrow> submittable_result \<Rightarrow> string callback_outcome" where
  "unbond_callback findMetaError txHash = status_callback ''Unbonding'' findMetaError (\<lambda>_ _. txHash)"

definition withdrawUnbonded_callback :: "registry \<Rightarrow> string \<Rightarrow> submittable_result \<Rightarrow> string callback_outcome" where
  "withdrawUnbonded_callback findMetaError txHash =
     status_callback ''Withdraw unbonded'' findMetaError (\<lambda>_ _. txHash)"

definition vote_callback :: "registry \<Rightarrow> string \<Rightarrow> submittable_result \<Rightarrow> string callback_outcome" where
  "vote_callback findMetaError txHash = status_callback ''Vote'' findMetaError (\<lambda>_ _. txHash)"

definition proposal_callback :: "registry \<Rightarrow> string \<Rightarrow> submittable_result \<Rightarrow> string callback_outcome" where
  "proposal_callback findMetaError txHash =
     status_callback ''Treasury proposal'' findMetaError (\<lambda>_ _. txHash)"

text \<open>
  The promise the operation returns.  Only the first call of \<open>resolve\<close> or
  \<open>reject\<close> settles it; later calls have no effect.
\<close>

datatype 'a promise = Pending | Fulfilled 'a | Rejected string

definition settle :: "'a promise \<Rightarrow> 'a callback_outcome \<Rightarrow> 'a promise" where
  "settle p outcome =
     (case p of
        Pending \<Rightarrow>
          (case outcome of
             Resolve v \<Rightarrow> Fulfilled v
           | Reject msg \<Rightarrow> Rejected msg
           | _ \<Rightarrow> Pending)
      | _ \<Rightarrow> p)"

text \<open>
  The status updates are delivered to the callback in order.  An exception thrown
  by the callback is caught nowhere in the SDK and the subscription is not
  released: the exception escapes, the promise is left as it is, and the callback
  is called again on the next update.  The result is the state of the promise
  after the last update and the exceptions that escaped, in order.
\<close>

fun deliver ::
  "(submittable_result \<Rightarrow> 'a callback_outcome) \<Rightarrow> 'a promise \<Rightarrow> js_error list
     \<Rightarrow> submittable_result list \<Rightarrow> 'a promise \<times> js_error list" where
  "deliver cb p uncaught [] = (p, uncaught)"
| "deliver cb p uncaught (r # rs) =
     (case cb r of
        Throws e \<Rightarrow> deliver cb p (uncaught @ [e]) rs
      | outcome \<Rightarrow> deliver cb (settle p outcome) uncaught rs)"

text \<open>
  \<open>new Promise((resolve, reject) => tx.signAndSend(account, options, cb).catch(reject))\<close>:
  either \<open>signAndSend\<close> itself fails, which rejects the promise, or it delivers
  status updates.
\<close>

datatype send_outcome = SendFailed string | Delivered "submittable_result list"

definition submitAndTrack ::
  "(submittable_result \<Rightarrow> 'a callback_outcome) \<Rightarrow> send_outcome \<Rightarrow> 'a promise \<times> js_error list" where
  "submitAndTrack cb outcome =
     (case outcome of
        SendFailed msg \<Rightarrow> (Rejected msg, [])
      | Delivered updates \<Rightarrow> deliver cb Pending [] updates)"

text \<open>The state of the promise at the end.\<close>

definition promise_state :: "'a promise \<times> js_error list \<Rightarrow> 'a promise" where
  "promise_state t = fst t"

text \<open>The statuses on which the callback does nothing.\<close>

definition quiet :: "extrinsic_status \<Rightarrow> bool" where
  "quiet st =
     (case st of
        InBlock _ \<Rightarrow> False | Error \<Rightarrow> False | Dropped \<Rightarrow> False | Invalid \<Rightarrow> False
      | _ \<Rightarrow> True)"

text \<open>The updates of a list on which the callback does nothing.\<close>

definition quiet_updates :: "submittable_result list \<Rightarrow> submittable_result list" where
  "quiet_updates us = filter (\<lambda>u. quiet (result_status u)) us"

text \<open>The message of a decoded module error: \<open>section.name: docs\<close>.\<close>

definition decoded_message :: "registry_error \<Rightarrow> string" where
  "decoded_message d = err_section d @ ''.'' @ err_name d @ '': '' @ array_toString (err_docs d)"

text \<open>
  A registry that resolves the module error (5, 2) only, an update that reports
  inclusion in a block with one event, and an update that carries a status only.
\<close>

definition sample_registry :: registry where
  "sample_registry m =
     (if pallet_index m = 5 \<and> error_index m = 2
      then Some \<lparr>err_section = ''balances'', err_name = ''InsufficientBalance'',
                 err_docs = [''Balance too low to send value.'']\<rparr>
      else None)"

definition in_block :: "dispatch_error option \<Rightarrow> submittable_result" where
  "in_block de =
     \<lparr>result_status = InBlock ''0xb10c'',
      result_events = [\<lparr>phase = ''ApplyExtrinsic(1)'', event = ''balances.Transfer''\<rparr>],
      dispatchError = de\<rparr>"

definition update :: "extrinsic_status \<Rightarrow> submittable_result" where
  "update st = \<lparr>result_status = st, result_events = [], dispatchError = None\<rparr>"

section \<open>Staking: \<open>StakingManager.getStakingInfo\<close>\<close>

text \<open>
  The raw values returned by the three storage queries.  \<open>chunk_value\<close> is the
  field \<open>value\<close> of an unlocking chunk and \<open>unbonding_value\<close> the field \<open>value\<close>
  of an entry of \<open>StakingInfo.unbonding\<close>.
\<close>

record unlock_chunk =
  chunk_value :: nat
  chunk_era :: nat

record staking_ledger =
  active :: nat
  unlocking :: "unlock_chunk list"

record unbonding_entry =
  unbonding_value :: string
  unbonding_era :: nat

record StakingInfo =
  bonded :: string
  unbonding :: "unbonding_entry list"
  redeemable :: string
  nominations :: "string list option"

text \<open>
  The mapping of lines 34 to 37:
  \<open>chunk => ({ value: chunk.value.toString(), era: chunk.era.toNumber() })\<close>.
\<close>

definition to_unbonding :: "unlock_chunk \<Rightarrow> unbonding_entry" where
  "to_unbonding chunk =
     \<lparr>unbonding_value = dec_digits (chunk_value chunk), unbonding_era = chunk_era chunk\<rparr>"

text \<open>
  The reducer of line 42:
  \<open>(total, chunk) => (BigInt(total) + BigInt(chunk.value)).toString()\<close>.
\<close>

definition add_chunk :: "js_error + string \<Rightarrow> unbonding_entry \<Rightarrow> js_error + string" where
  "add_chunk tot chunk =
     (case tot of
        Inl e \<Rightarrow> Inl e
      | Inr t \<Rightarrow>
          (case BigInt_of_string t of
             Inl e \<Rightarrow> Inl e
           | Inr a \<Rightarrow>
               (case BigInt_of_string (unbonding_value chunk) of
                  Inl e \<Rightarrow> Inl e
                | Inr b \<Rightarrow> Inr (BigInt_toString (a + b)))))"

definition redeemable_of :: "unbonding_entry list \<Rightarrow> nat \<Rightarrow> js_error + string" where
  "redeemable_of unb currentEraNumber =
     foldl add_chunk (Inr ''0'') (filter (\<lambda>chunk. unbonding_era chunk \<le> currentEraNumber) unb)"

text \<open>
  \<open>getStakingInfo\<close>, as a function of the results of the queries it issues:
  \<open>staking.ledger(address)\<close>, \<open>staking.nominators(address)\<close> (the targets of the
  nominator record) and \<open>staking.currentEra()\<close>, which is only awaited and
  unwrapped when the ledger is present.
\<close>

definition getStakingInfo ::
  "staking_ledger option \<Rightarrow> string list option \<Rightarrow> nat option \<Rightarrow> js_error + StakingInfo" where
  "getStakingInfo stakingLedger nominators currentEra =
     (let nominationTargets = (case nominators of None \<Rightarrow> None | Some targets \<Rightarrow> Some targets)
      in case stakingLedger of
           None \<Rightarrow>
             Inr \<lparr>bonded = ''0'', unbonding = [], redeemable = ''0'',
                  nominations = nominationTargets\<rparr>
         | Some ledger \<Rightarrow>
             (case currentEra of
                None \<Rightarrow> Inl UnwrapNone
              | Some currentEraNumber \<Rightarrow>
                  (let unb = map to_unbonding (unlocking ledger)
                   in case redeemable_of unb currentEraNumber of
                        Inl e \<Rightarrow> Inl e
                      | Inr r \<Rightarrow>
                          Inr \<lparr>bonded = dec_digits (active ledger), unbonding = unb,
                               redeemable = r, nominations = nominationTargets\<rparr>)))"

section \<open>Governance: \<open>GovernanceManager\<close>\<close>

text \<open>
  The raw chain values, as far as the code reads them.  A storage key gives its
  first argument (\<open>key.args[0].toNumber()\<close>, which throws when the key carries no
  decoded argument) and its hex form.  A stored referendum is an optional
  \<open>ReferendumInfo\<close>, which is ongoing or in some other state.  Every field the code
  reaches through \<open>?.\<close> is optional.
\<close>

record storage_key =
  args0 :: "nat option"
  key_hex :: string

datatype 'o referendum_info = Ongoing 'o | NotOngoing

record og_submission =
  who :: "string option"
  amount :: "nat option"

record og_deciding =
  since :: "nat option"

record og_ongoing =
  track :: "nat option"
  submission :: "og_submission option"
  deciding :: "og_deciding option"

record legacy_ongoing =
  end_block :: "nat option"    \<comment> \<open>the field \<open>end\<close>\<close>

record GovernanceProposal =
  index :: nat
  hash :: string
  author :: string
  deposit :: string
  status :: string
  title :: "string option"
  description :: "string option"
  votingEnd :: "nat option"

text \<open>\<open>x || d\<close> on a string: the empty string is falsy.\<close>

definition or_else :: "string option \<Rightarrow> string \<Rightarrow> string" where
  "or_else x d = (case x of None \<Rightarrow> d | Some v \<Rightarrow> if v = [] then d else v)"

text \<open>The object literals of lines 47 to 56 and 80 to 89 (and 197 to 206, 221 to 230).\<close>

definition og_proposal :: "nat \<Rightarrow> string \<Rightarrow> og_ongoing \<Rightarrow> GovernanceProposal" where
  "og_proposal i h ongoing =
     (let trk = (case track ongoing of None \<Rightarrow> 0 | Some t \<Rightarrow> t);
          sub = submission ongoing
      in \<lparr>index = i, hash = h,
          author = or_else (case sub of None \<Rightarrow> None | Some sb \<Rightarrow> who sb) ''Unknown'',
          deposit = or_else (case sub of None \<Rightarrow> None
                             | Some sb \<Rightarrow> map_option dec_digits (amount sb)) ''0'',
          status = ''Active'',
          title = Some (''Track '' @ dec_digits trk @ '' - Referendum '' @ dec_digits i),
          description = Some ''OpenGov Referendum'',
          votingEnd = (case deciding ongoing of None \<Rightarrow> None | Some d \<Rightarrow> since d)\<rparr>)"

definition legacy_proposal :: "nat \<Rightarrow> string \<Rightarrow> legacy_ongoing \<Rightarrow> GovernanceProposal" where
  "legacy_proposal i h ongoing =
     \<lparr>index = i, hash = h, author = ''Democracy'', deposit = ''0'', status = ''Active'',
      title = Some (''Democracy Referendum '' @ dec_digits i),
      description = Some ''Legacy Democracy Referendum'',
      votingEnd = end_block ongoing\<rparr>"

text \<open>
  The body of the \<open>try\<close> block of the mapping callback: \<open>Inl\<close> when it throws,
  \<open>Inr None\<close> when it returns \<open>null\<close>.
\<close>

definition try_entry ::
  "(nat \<Rightarrow> string \<Rightarrow> 'o \<Rightarrow> GovernanceProposal) \<Rightarrow> storage_key \<times> 'o referendum_info option
     \<Rightarrow> js_error + GovernanceProposal option" where
  "try_entry mk entry =
     (case args0 (fst entry) of
        None \<Rightarrow> Inl DecodeFailure
      | Some i \<Rightarrow>
          (case snd entry of
             None \<Rightarrow> Inl UnwrapNone
           | Some (Ongoing ongoing) \<Rightarrow> Inr (Some (mk i (key_hex (fst entry)) ongoing))
           | Some NotOngoing \<Rightarrow> Inr None))"

text \<open>
  The mapping callback with its \<open>catch\<close>: the value it returns and what it passes
  to \<open>console.warn\<close>.
\<close>

definition parse_entry ::
  "(nat \<Rightarrow> string \<Rightarrow> 'o \<Rightarrow> GovernanceProposal) \<Rightarrow> storage_key \<times> 'o referendum_info option
     \<Rightarrow> GovernanceProposal option \<times> js_error list" where
  "parse_entry mk entry =
     (case try_entry mk entry of Inl e \<Rightarrow> (None, [e]) | Inr r \<Rightarrow> (r, []))"

text \<open>
  \<open>entries.map(...).filter(proposal => proposal !== null)\<close>, with the warnings in
  the order they are logged.
\<close>

definition parse_entries ::
  "(nat \<Rightarrow> string \<Rightarrow> 'o \<Rightarrow> GovernanceProposal) \<Rightarrow> (storage_key \<times> 'o referendum_info option) list
     \<Rightarrow> GovernanceProposal list \<times> js_error list" where
  "parse_entries mk entries =
     (let results = map (parse_entry mk) entries
      in (map the (filter (\<lambda>proposal. proposal \<noteq> None) (map fst results)),
          concat (map snd results)))"

definition parseOpenGovProposals ::
  "(storage_key \<times> og_ongoing referendum_info option) list
     \<Rightarrow> GovernanceProposal list \<times> js_error list" where
  "parseOpenGovProposals entries = parse_entries og_proposal entries"

definition parseLegacyProposals ::
  "(storage_key \<times> legacy_ongoing referendum_info option) list
     \<Rightarrow> GovernanceProposal list \<times> js_error list" where
  "parseLegacyProposals entries = parse_entries legacy_proposal entries"

text \<open>
  The chain as the governance queries see it.  A storage item is \<open>None\<close> when the
  pallet or the item does not exist on the chain (\<open>api.query.referenda?.referendumInfoFor\<close>
  is \<open>undefined\<close>).  When it exists, \<open>sm_entries\<close> is the result of \<open>.entries()\<close>
  and \<open>sm_at i\<close> the result of calling it on the index \<open>i\<close>: the hex form of the
  stored value and the optional value; either query may fail (\<open>Inl\<close>).
\<close>

record 'o storage_map =
  sm_entries :: "js_error + (storage_key \<times> 'o referendum_info option) list"
  sm_at :: "nat \<Rightarrow> js_error + string \<times> 'o referendum_info option"

record 'h chain_api =
  referenda_referendumInfoFor :: "og_ongoing storage_map option"
  democracy_referendumInfoOf :: "legacy_ongoing storage_map option"
  convictionVoting_votingFor :: "(string \<Rightarrow> nat \<Rightarrow> js_error + 'h) option"
  democracy_votingOf :: "(string \<Rightarrow> js_error + 'h) option"

text \<open>
  What a read operation does: the storage queries it issues, in order, what it
  logs with \<open>console.warn\<close>, and the value it returns.
\<close>

datatype storage_query =
    ReferendaEntries | DemocracyEntries
  | ReferendaAt nat | DemocracyAt nat
  | VotingFor string nat | VotingOf string

record 'a read_result =
  issued :: "storage_query list"
  warned :: "js_error list"
  returned :: 'a

definition getActiveProposals :: "'h chain_api \<Rightarrow> GovernanceProposal list read_result" where
  "getActiveProposals api =
     (case referenda_referendumInfoFor api of
        Some referenda \<Rightarrow>
          (case sm_entries referenda of
             Inl e \<Rightarrow> \<lparr>issued = [ReferendaEntries], warned = [e], returned = []\<rparr>
           | Inr referendaEntries \<Rightarrow>
               (let r = parseOpenGovProposals referendaEntries
                in \<lparr>issued = [ReferendaEntries], warned = snd r, returned = fst r\<rparr>))
      | None \<Rightarrow>
          (case democracy_referendumInfoOf api of
             None \<Rightarrow>
               (let r = parseLegacyProposals []
                in \<lparr>issued = [], warned = snd r, returned = fst r\<rparr>)
           | Some democracy \<Rightarrow>
               (case sm_entries democracy of
                  Inl e \<Rightarrow> \<lparr>issued = [DemocracyEntries], warned = [e], returned = []\<rparr>
                | Inr democracyEntries \<Rightarrow>
                    (let r = parseLegacyProposals democracyEntries
                     in \<lparr>issued = [DemocracyEntries], warned = snd r, returned = fst r\<rparr>))))"

text \<open>
  \<open>getReferendumDetails\<close>: the OpenGov block returns only from inside its two
  nested \<open>if\<close>s; in every other case control reaches the democracy block.
\<close>

definition legacy_details ::
  "'h chain_api \<Rightarrow> nat \<Rightarrow> storage_query list \<Rightarrow> GovernanceProposal option read_result" where
  "legacy_details api referendumIndex qs =
     (case democracy_referendumInfoOf api of
        None \<Rightarrow> \<lparr>issued = qs, warned = [], returned = None\<rparr>
      | Some democracy \<Rightarrow>
          (case sm_at democracy referendumIndex of
             Inl e \<Rightarrow> \<lparr>issued = qs @ [DemocracyAt referendumIndex], warned = [e], returned = None\<rparr>
           | Inr (h, Some (Ongoing ongoing)) \<Rightarrow>
               \<lparr>issued = qs @ [DemocracyAt referendumIndex], warned = [],
                returned = Some (legacy_proposal referendumIndex h ongoing)\<rparr>
           | Inr (h, _) \<Rightarrow>
               \<lparr>issued = qs @ [DemocracyAt referendumIndex], warned = [], returned = None\<rparr>))"

definition getReferendumDetails ::
  "'h chain_api \<Rightarrow> nat \<Rightarrow> GovernanceProposal option read_result" where
  "getReferendumDetails api referendumIndex =
     (case referenda_referendumInfoFor api of
        None \<Rightarrow> legacy_details api referendumIndex []
      | Some referenda \<Rightarrow>
          (case sm_at referenda referendumIndex of
             Inl e \<Rightarrow> \<lparr>issued = [ReferendaAt referendumIndex], warned = [e], returned = None\<rparr>
           | Inr (h, Some (Ongoing ongoing)) \<Rightarrow>
               \<lparr>issued = [ReferendaAt referendumIndex], warned = [],
                returned = Some (og_proposal referendumIndex h ongoing)\<rparr>
           | Inr (h, _) \<Rightarrow> legacy_details api referendumIndex [ReferendaAt referendumIndex]))"

text \<open>
  \<open>getVotingInfo\<close>; the value returned is \<open>voting.toHuman()\<close>, of the abstract
  type \<open>'h\<close>, or \<open>null\<close>.
\<close>

definition getVotingInfo :: "'h chain_api \<Rightarrow> string \<Rightarrow> nat \<Rightarrow> 'h option read_result" where
  "getVotingInfo api account referendumIndex =
     (case convictionVoting_votingFor api of
        Some votingFor \<Rightarrow>
          (case votingFor account 0 of
             Inl e \<Rightarrow> \<lparr>issued = [VotingFor account 0], warned = [e], returned = None\<rparr>
           | Inr voting \<Rightarrow> \<lparr>issued = [VotingFor account 0], warned = [], returned = Some voting\<rparr>)
      | None \<Rightarrow>
          (case democracy_votingOf api of
             Some votingOf \<Rightarrow>
               (case votingOf account of
                  Inl e \<Rightarrow> \<lparr>issued = [VotingOf account], warned = [e], returned = None\<rparr>
                | Inr voting \<Rightarrow> \<lparr>issued = [VotingOf account], warned = [], returned = Some voting\<rparr>)
           | None \<Rightarrow> \<lparr>issued = [], warned = [], returned = None\<rparr>))"

text \<open>
  The terms in which the listing is specified: an entry decodes to an ongoing
  referendum when its key carries an index and its value holds an ongoing
  referendum; it fails to decode when the key carries no index or the value is
  empty.
\<close>

definition decoded_ongoing ::
  "(nat \<Rightarrow> string \<Rightarrow> 'o \<Rightarrow> GovernanceProposal) \<Rightarrow> storage_key \<times> 'o referendum_info option
     \<Rightarrow> GovernanceProposal option" where
  "decoded_ongoing mk entry =
     (case (args0 (fst entry), snd entry) of
        (Some i, Some (Ongoing ongoing)) \<Rightarrow> Some (mk i (key_hex (fst entry)) ongoing)
      | _ \<Rightarrow> None)"

definition undecodable :: "storage_key \<times> 'o referendum_info option \<Rightarrow> bool" where
  "undecodable entry = (args0 (fst entry) = None \<or> snd entry = None)"

text \<open>
  Five raw entries: an undecodable key, an ongoing referendum, an empty value, a
  finished referendum, an ongoing referendum.
\<close>

definition sample_entries :: "(storage_key \<times> legacy_ongoing referendum_info option) list" where
  "sample_entries =
     [(\<lparr>args0 = None, key_hex = ''0xaa''\<rparr>, Some (Ongoing \<lparr>end_block = Some 10\<rparr>)),
      (\<lparr>args0 = Some 1, key_hex = ''0xbb''\<rparr>, Some (Ongoing \<lparr>end_block = Some 20\<rparr>)),
      (\<lparr>args0 = Some 2, key_hex = ''0xcc''\<rparr>, None),
      (\<lparr>args0 = Some 3, key_hex = ''0xdd''\<rparr>, Some NotOngoing),
      (\<lparr>args0 = Some 4, key_hex = ''0xee''\<rparr>, Some (Ongoing \<lparr>end_block = None\<rparr>))]"

text \<open>
  The ongoing entry of a schema at an index, if the schema exists, the query
  succeeds and the entry is ongoing; and whether the query at the index fails.
\<close>

definition ongoing_at ::
  "'o storage_map option \<Rightarrow> nat \<Rightarrow> (nat \<Rightarrow> string \<Rightarrow> 'o \<Rightarrow> GovernanceProposal)
     \<Rightarrow> GovernanceProposal option" where
  "ongoing_at schema i mk =
     (case schema of
        None \<Rightarrow> None
      | Some sm \<Rightarrow>
          (case sm_at sm i of
             Inr (h, Some (Ongoing ongoing)) \<Rightarrow> Some (mk i h ongoing)
           | _ \<Rightarrow> None))"

definition query_fails :: "'o storage_map option \<Rightarrow> nat \<Rightarrow> bool" where
  "query_fails schema i = (case schema of None \<Rightarrow> False | Some sm \<Rightarrow> isl (sm_at sm i))"

text \<open>
  A chain that exposes both schemas: the referenda storage is empty, the democracy
  storage holds an ongoing referendum at index 3.
\<close>

definition both_schemas :: "string chain_api" where
  "both_schemas =
     \<lparr>referenda_referendumInfoFor =
        Some \<lparr>sm_entries = Inr [], sm_at = (\<lambda>i. Inr (''0x00'', None))\<rparr>,
      democracy_referendumInfoOf =
        Some \<lparr>sm_entries = Inr [(\<lparr>args0 = Some 3, key_hex = ''0xdd''\<rparr>,
                                   Some (Ongoing \<lparr>end_block = Some 100\<rparr>))],
              sm_at = (\<lambda>i. if i = 3 then Inr (''0x01'', Some (Ongoing \<lparr>end_block = Some 100\<rparr>))
                            else Inr (''0x00'', None))\<rparr>,
      convictionVoting_votingFor = Some (\<lambda>account trk. Inr (account @ '' votes on track '' @ dec_digits trk)),
      democracy_votingOf = None\<rparr>"

text \<open>The ledger of the specification's example: chunks (100, era 5) and (50, era 10).\<close>

definition spec_chunks :: "unlock_chunk list" where
  "spec_chunks = [\<lparr>chunk_value = 100, chunk_era = 5\<rparr>, \<lparr>chunk_value = 50, chunk_era = 10\<rparr>]"

section \<open>Properties\<close>

subsection \<open>Decimal strings round-trip through BigInt\<close>


lemma digit_of_digit_char: "d < 10 \<Longrightarrow> digit_of 10 (digit_char d) = Some d"
  by (simp add: digit_of_def digit_char_def Let_def)

lemma parse_digits_acc_snoc:
  "parse_digits_acc r acc (cs @ [c]) =
     (case parse_digits_acc r acc cs of
        None \<Rightarrow> None
      | Some a \<Rightarrow> (case digit_of r c of None \<Rightarrow> None | Some d \<Rightarrow> Some (a * r + d)))"
  by (induction cs arbitrary: acc) (auto split: option.splits)

lemma parse_dec_digits: "parse_digits_acc 10 0 (dec_digits n) = Some n"
proof (induction n rule: dec_digits.induct)
  case (1 n)
  show ?case
  proof (cases "n < 10")
    case True
    then show ?thesis by (simp add: dec_digits.simps [of n] digit_of_digit_char)
  next
    case False
    with 1 have "parse_digits_acc 10 0 (dec_digits (n div 10)) = Some (n div 10)" by simp
    with False show ?thesis
      by (simp add: dec_digits.simps [of n] parse_digits_acc_snoc digit_of_digit_char)
  qed
qed


lemma is_dec_digit_char: "d < 10 \<Longrightarrow> is_dec (digit_char d)"
  by (simp add: is_dec_def digit_char_def)

lemma dec_digits_all_dec: "\<forall>c \<in> set (dec_digits n). is_dec c"
proof (induction n rule: dec_digits.induct)
  case (1 n)
  then show ?case
    by (cases "n < 10") (auto simp: dec_digits.simps [of n] is_dec_digit_char)
qed

lemma dec_digits_nonempty: "dec_digits n \<noteq> []"
  by (cases "n < 10") (simp_all add: dec_digits.simps [of n])

lemma is_dec_not_ws: "is_dec c \<Longrightarrow> \<not> is_ws c"
  by (auto simp: is_dec_def is_ws_def)

lemma trim_noop:
  assumes "s \<noteq> []" "\<not> is_ws (hd s)" "\<not> is_ws (last s)"
  shows "trim s = s"
proof -
  from assms have a: "dropWhile is_ws s = s" by (cases s) auto
  from assms have "rev s \<noteq> []" "\<not> is_ws (hd (rev s))" by (auto simp: hd_rev)
  then have "dropWhile is_ws (rev s) = rev s" by (cases "rev s") auto
  with a show ?thesis by (simp add: trim_def)
qed

lemma trim_dec_digits: "trim (dec_digits n) = dec_digits n"
proof (rule trim_noop)
  show "dec_digits n \<noteq> []" by (rule dec_digits_nonempty)
  have "hd (dec_digits n) \<in> set (dec_digits n)" "last (dec_digits n) \<in> set (dec_digits n)"
    using dec_digits_nonempty by auto
  then show "\<not> is_ws (hd (dec_digits n))" "\<not> is_ws (last (dec_digits n))"
    using dec_digits_all_dec is_dec_not_ws by blast+
qed

lemma all_dec_StrIntegerLiteral:
  assumes "\<forall>c \<in> set t. is_dec c"
  shows "StrIntegerLiteral t = parse_digits 10 t"
proof -
  have notin: "\<And>c. \<not> is_dec c \<Longrightarrow> c \<notin> set t" using assms by blast
  have x: "CHR ''x'' \<notin> set t" "CHR ''X'' \<notin> set t" "CHR ''o'' \<notin> set t" "CHR ''O'' \<notin> set t"
     "CHR ''b'' \<notin> set t" "CHR ''B'' \<notin> set t" "CHR ''+'' \<notin> set t" "CHR ''-'' \<notin> set t"
    by (rule notin, simp add: is_dec_def)+
  have t2: "\<And>a b. take 2 t = [a, b] \<Longrightarrow> b \<in> set t"
    by (metis in_set_takeD list.set_intros(1,2))
  have t1: "\<And>a. take 1 t = [a] \<Longrightarrow> a \<in> set t"
    by (metis in_set_takeD list.set_intros(1))
  show ?thesis
    unfolding StrIntegerLiteral_def using x t2 t1 by auto
qed

lemma BigInt_of_dec_digits: "BigInt_of_string (dec_digits n) = Inr (int n)"
  by (simp add: BigInt_of_string_def StringToBigInt_def trim_dec_digits dec_digits_nonempty
      all_dec_StrIntegerLiteral dec_digits_all_dec parse_digits_def parse_dec_digits)


lemma parse_digits_dec: "parse_digits 10 (dec_digits n) = Some (int n)"
  by (simp add: parse_digits_def dec_digits_nonempty parse_dec_digits)

lemma minus_not_ws: "\<not> is_ws CHR ''-''"
  by (simp add: is_ws_def)

lemma BigInt_of_neg_dec_digits: "BigInt_of_string (CHR ''-'' # dec_digits n) = Inr (- int n)"
proof -
  have l: "\<not> is_ws (last (CHR ''-'' # dec_digits n))"
    using dec_digits_all_dec [of n] dec_digits_nonempty [of n] is_dec_not_ws
    by (metis last_ConsR last_in_set)
  have t: "trim (CHR ''-'' # dec_digits n) = CHR ''-'' # dec_digits n"
    by (rule trim_noop) (simp_all add: minus_not_ws l del: last.simps)
  show ?thesis
    by (simp add: BigInt_of_string_def StringToBigInt_def t StrIntegerLiteral_def parse_digits_dec)
qed

lemma BigInt_roundtrip: "BigInt_of_string (BigInt_toString i) = Inr i"
  by (simp add: BigInt_toString_def BigInt_of_neg_dec_digits BigInt_of_dec_digits)

subsection \<open>Summing the elapsed chunks\<close>

lemma BigInt_toString_nat: "BigInt_toString (int a + int b) = dec_digits (a + b)"
  by (simp add: BigInt_toString_def nat_add_distrib)

lemma add_chunk_dec:
  "add_chunk (Inr (dec_digits a)) \<lparr>unbonding_value = dec_digits b, unbonding_era = e\<rparr>
     = Inr (dec_digits (a + b))"
  by (simp add: add_chunk_def BigInt_of_dec_digits BigInt_toString_nat)


lemma foldl_add_chunk:
  "foldl add_chunk (Inr (dec_digits a)) (map to_unbonding cs)
     = Inr (dec_digits (a + sum_list (map chunk_value cs)))"
  by (induction cs arbitrary: a) (simp_all add: to_unbonding_def add_chunk_dec add.assoc)

lemma dec_digits_0: "dec_digits 0 = ''0''"
  by code_simp

lemma redeemable_of_sum:
  "redeemable_of (map to_unbonding cs) e
     = Inr (dec_digits (sum_list (map chunk_value (filter (\<lambda>c. chunk_era c \<le> e) cs))))"
proof -
  have "filter (\<lambda>chunk. unbonding_era chunk \<le> e) (map to_unbonding cs)
          = map to_unbonding (filter (\<lambda>c. chunk_era c \<le> e) cs)"
    by (simp add: filter_map comp_def to_unbonding_def)
  then show ?thesis
    using foldl_add_chunk [of 0] by (simp add: redeemable_of_def dec_digits_0)
qed

lemma getStakingInfo_Some:
  "getStakingInfo (Some ledger) noms (Some e) =
     Inr \<lparr>bonded = dec_digits (active ledger), unbonding = map to_unbonding (unlocking ledger),
          redeemable = dec_digits (sum_list (map chunk_value (filter (\<lambda>c. chunk_era c \<le> e) (unlocking ledger)))),
          nominations = noms\<rparr>"
  by (cases noms) (simp_all add: getStakingInfo_def Let_def redeemable_of_sum)


subsection \<open>Double arithmetic\<close>

text \<open>
  Rounding is exact on a value that fits 53 bits: if \<open>M = q * 2^j\<close> with
  \<open>q < 2^53\<close> and the exponents are in range, \<open>round_to_double\<close> only drops
  zero bits.
\<close>

lemma bit_length_0: "bit_length 0 = 0"
  by (simp add: bit_length.simps)

lemma bit_length_pos: "0 < n \<Longrightarrow> bit_length n = Suc (bit_length (n div 2))"
  by (simp add: bit_length.simps [of n])

lemma bit_length_bound: "n < 2 ^ bit_length n"
proof (induction n rule: bit_length.induct)
  case (1 n)
  show ?case
  proof (cases "n = 0")
    case True
    then show ?thesis by (simp add: bit_length_0)
  next
    case False
    with 1 have "n div 2 < 2 ^ bit_length (n div 2)" by simp
    then have "n < 2 * 2 ^ bit_length (n div 2)" by linarith
    with False show ?thesis by (simp add: bit_length_pos)
  qed
qed

lemma bit_length_le: "n < 2 ^ b \<Longrightarrow> bit_length n \<le> b"
proof (induction n arbitrary: b rule: bit_length.induct)
  case (1 n)
  show ?case
  proof (cases "n = 0")
    case True
    then show ?thesis by (simp add: bit_length_0)
  next
    case False
    with "1.prems" obtain c where b: "b = Suc c" by (cases b) auto
    with "1.prems" have "n div 2 < 2 ^ c" by auto
    with 1 False have "bit_length (n div 2) \<le> c" by simp
    with False b show ?thesis by (simp add: bit_length_pos)
  qed
qed

lemma bit_length_double: "0 < n \<Longrightarrow> bit_length (2 * n) = Suc (bit_length n)"
  by (simp add: bit_length_pos)

lemma bit_length_shift: "0 < q \<Longrightarrow> bit_length (q * 2 ^ j) = bit_length q + j"
proof (induction j)
  case 0
  show ?case by simp
next
  case (Suc j)
  then have "bit_length (2 * (q * 2 ^ j)) = Suc (bit_length (q * 2 ^ j))"
    by (intro bit_length_double) simp
  with Suc show ?case by (simp add: mult.commute mult.left_commute)
qed

lemma round_exact:
  assumes M: "M = q * 2 ^ j" and q: "q < 2 ^ 53" and E: "- 1074 \<le> E" and Ej: "E + int j \<le> 971"
  defines "k \<equiv> bit_length M - 53"
  shows "round_to_double s M E = Finite s (M div 2 ^ k) (E + int k)"
    and "2 ^ k dvd M" and "k \<le> j"
proof -
  show kj: "k \<le> j"
  proof (cases "q = 0")
    case True
    with M show ?thesis by (simp add: k_def bit_length_0)
  next
    case False
    then have "bit_length M = bit_length q + j" using M by (simp add: bit_length_shift)
    moreover have "bit_length q \<le> 53" using q by (rule bit_length_le)
    ultimately show ?thesis by (simp add: k_def)
  qed
  then have "(2::nat) ^ k dvd 2 ^ j" by (simp add: le_imp_power_dvd)
  then show dvd: "2 ^ k dvd M" using M by simp
  have kk: "nat (max 0 (max (int (bit_length M) - 53) (- 1074 - E))) = k"
    unfolding k_def using E by arith
  have r: "M mod 2 ^ k = 0" using dvd by simp
  have "M < 2 ^ bit_length M" by (rule bit_length_bound)
  also have "(2::nat) ^ bit_length M \<le> 2 ^ (k + 53)"
    by (rule power_increasing) (simp_all add: k_def)
  finally have "M < 2 ^ k * 2 ^ 53" by (simp add: power_add)
  then have q53: "M div 2 ^ k < 2 ^ 53"
    by (simp add: less_mult_imp_div_less mult.commute)
  have no_ovf: "\<not> (0 \<le> E + int k \<and> (2::nat) ^ 1024 \<le> M div 2 ^ k * 2 ^ nat (E + int k))"
  proof
    assume a: "0 \<le> E + int k \<and> (2::nat) ^ 1024 \<le> M div 2 ^ k * 2 ^ nat (E + int k)"
    have "nat (E + int k) \<le> 971" using kj Ej by linarith
    then have "(2::nat) ^ nat (E + int k) \<le> 2 ^ 971" by (intro power_increasing) simp_all
    then have "M div 2 ^ k * 2 ^ nat (E + int k) \<le> M div 2 ^ k * 2 ^ 971" by (rule mult_le_mono2)
    also have "\<dots> < 2 ^ 53 * 2 ^ 971" using q53 by (intro mult_strict_right_mono) simp_all
    also have "\<dots> = (2::nat) ^ 1024" by (simp add: power_add [symmetric])
    finally show False using a by simp
  qed
  show "round_to_double s M E = Finite s (M div 2 ^ k) (E + int k)"
    unfolding round_to_double_def kk Let_def r using no_ovf by simp
qed


lemma floor_of_double:
  "BigInt_of_number (Math_floor (Finite s m e)) = Inr \<lfloor>number_value s m e\<rfloor>"
proof (cases "0 \<le> e")
  case True
  then have "(2::real) powi e = 2 ^ nat e" by (simp add: power_int_def)
  then have "number_value s m e = of_int ((if s then - 1 else 1) * int m * 2 ^ nat e)"
    by (simp add: number_value_def)
  then have "\<lfloor>number_value s m e\<rfloor> = (if s then - 1 else 1) * int m * 2 ^ nat e"
    by (simp only: floor_of_int)
  with True show ?thesis by (simp add: Math_floor_def BigInt_of_number_def)
next
  case False
  define k where "k = nat (- e)"
  define a where "a = (if s then - int m else int m)"
  from False have p: "(2::real) powi e = 1 / 2 ^ k" by (simp add: power_int_def k_def field_simps)
  have "number_value s m e = of_int a / of_int (2 ^ k)"
    by (simp add: number_value_def p a_def)
  then have fl: "\<lfloor>number_value s m e\<rfloor> = a div 2 ^ k"
    by (simp only: floor_divide_of_int_eq)
  have sign: "(if s then - 1 else 1) * int (nat \<bar>a div 2 ^ k\<bar>) = a div 2 ^ k"
  proof (cases s)
    case True
    then have "a div 2 ^ k \<le> 0" by (simp add: a_def div_nonpos_pos_le0)
    with True show ?thesis by simp
  next
    case False
    then have "0 \<le> a div 2 ^ k" by (simp add: a_def pos_imp_zdiv_nonneg_iff)
    with False show ?thesis by simp
  qed
  from False show ?thesis
    using sign by (simp add: Math_floor_def BigInt_of_number_def fl Let_def k_def [symmetric] a_def [symmetric])
qed


lemma five_pow_bound: "d \<le> 22 \<Longrightarrow> (5::nat) ^ d < 2 ^ 53"
proof -
  assume "d \<le> 22"
  then have "(5::nat) ^ d \<le> 5 ^ 22" by (intro power_increasing) simp_all
  also have "\<dots> < 2 ^ 53" by simp
  finally show ?thesis .
qed

lemma pow10_exact:
  assumes d: "d \<le> 22"
  defines "k \<equiv> bit_length (10 ^ d) - 53"
  shows "pow10 d = Finite False (5 ^ d * 2 ^ (d - k)) (int k)" and "k \<le> d"
proof -
  have M: "(10::nat) ^ d = 5 ^ d * 2 ^ d"
    by (simp add: power_mult_distrib [symmetric])
  have E: "(0::int) + int d \<le> 971" using d by simp
  note r = round_exact [OF M five_pow_bound [OF d] _ E, folded k_def]
  from r(3) show kd: "k \<le> d" by simp
  have "(10::nat) ^ d = 5 ^ d * 2 ^ (d - k) * 2 ^ k"
    using kd by (simp add: M power_add [symmetric])
  then have "(10::nat) ^ d div 2 ^ k = 5 ^ d * 2 ^ (d - k)" by simp
  with r(1) show "pow10 d = Finite False (5 ^ d * 2 ^ (d - k)) (int k)"
    by (simp add: pow10_def)
qed

lemma BigInt_of_pow10: "d \<le> 22 \<Longrightarrow> BigInt_of_number (pow10 d) = Inr (10 ^ d)"
proof -
  assume d: "d \<le> 22"
  define k where "k = bit_length (10 ^ d) - 53"
  note p = pow10_exact [OF d, folded k_def]
  have "(2::int) ^ (d - k) * 2 ^ k = 2 ^ d"
    using p(2) by (simp add: power_add [symmetric])
  then have "(5::int) ^ d * 2 ^ (d - k) * 2 ^ k = 5 ^ d * 2 ^ d"
    by (simp add: mult.assoc)
  also have "\<dots> = 10 ^ d" by (simp add: power_mult_distrib [symmetric])
  finally show ?thesis by (simp add: p(1) BigInt_of_number_def)
qed


lemma round_to_double_cases:
  "round_to_double s M E = Infinity s \<or> (\<exists>q E'. round_to_double s M E = Finite s q E')"
  by (simp add: round_to_double_def Let_def)

lemma number_value_sign: "number_value True m e \<le> 0" "0 \<le> number_value False m e"
  by (simp_all add: number_value_def)

lemma floor_scaled_negative:
  assumes "d \<le> 22"
  shows "floor_scaled (Finite True m e) d = Inl RangeError
         \<or> (\<exists>v\<le>0. floor_scaled (Finite True m e) d = Inr v)"
proof -
  obtain p k where p: "pow10 d = Finite False p k"
    using pow10_exact(1) [OF assms] by blast
  consider "Number_multiply (Finite True m e) (pow10 d) = Infinity True"
    | q E' where "Number_multiply (Finite True m e) (pow10 d) = Finite True q E'"
    using round_to_double_cases [of True "m * p" "e + k"] by (auto simp: p Number_multiply_def)
  then show ?thesis
  proof cases
    case 1
    then show ?thesis by (simp add: floor_scaled_def Math_floor_def BigInt_of_number_def)
  next
    case 2
    have "\<lfloor>number_value True q E'\<rfloor> \<le> 0"
      using number_value_sign(1) [of q E'] by (simp add: floor_le_zero)
    with 2 show ?thesis by (simp add: floor_scaled_def floor_of_double)
  qed
qed

subsection \<open>The numeric branch of the amount conversion\<close>








subsection \<open>String amounts\<close>

lemma DECIMALS_le: "DECIMALS network \<le> 22"
  by (cases network) (simp_all add: DECIMALS_def)

lemma transferAmount_Str:
  "transferAmount network (Str s) = map_sum id (\<lambda>a. a * 10 ^ DECIMALS network) (BigInt_of_string s)"
  by (cases "BigInt_of_string s")
     (simp_all add: transferAmount_def Let_def BigInt_of_pow10 [OF DECIMALS_le])

lemma chainAmount_Str: "chainAmount chainDecimals (Str s) = BigInt_of_string s"
  by (simp add: chainAmount_def)



lemma sibling_string_amounts:
  "bondTx chainDecimals controller (Str s)
       = map_sum id (\<lambda>a. staking_bond controller a ''Staked'') (BigInt_of_string s)
   \<and> bondExtraTx chainDecimals (Str s) = map_sum id staking_bondExtra (BigInt_of_string s)
   \<and> unbondTx chainDecimals (Str s) = map_sum id staking_unbond (BigInt_of_string s)
   \<and> voteTx chainDecimals True hasDemocracy referendumIndex vote conviction (Str s)
       = map_sum id (convictionVoting_vote referendumIndex vote) (BigInt_of_string s)
   \<and> proposalTx chainDecimals (Str s) beneficiary
       = map_sum id (\<lambda>a. treasury_proposeSpend a beneficiary) (BigInt_of_string s)"
  by (cases "BigInt_of_string s")
     (simp_all add: chainAmount_def bondTx_def bondExtraTx_def unbondTx_def voteTx_def proposalTx_def)

lemma BigInt_of_5: "BigInt_of_string ''5'' = Inr 5"
proof -
  have "dec_digits 5 = ''5''" by code_simp
  with BigInt_of_dec_digits [of 5] show ?thesis by simp
qed

text \<open>
  Claim C2.  A string amount is parsed exactly as an integer literal by every
  conversion.  \<open>bond\<close>, \<open>bondExtra\<close>, \<open>unbond\<close>, \<open>voteOnReferendum\<close> and
  \<open>submitTreasuryProposal\<close> pass the parsed value on unscaled, as the specification
  says; \<open>transfer\<close> alone multiplies it by \<open>10^decimals\<close>.  The string \<open>5\<close> becomes
  50000000000 in a transfer on Polkadot and 5 in the five other operations.
\<close>

theorem transfer_scales_string_amount:
  "transferAmount network (Str (dec_digits n)) = Inr (int n * 10 ^ DECIMALS network)
   \<and> chainAmount chainDecimals (Str (dec_digits n)) = Inr (int n)
   \<and> transfer_tx polkadot \<lparr>from_address = ''5From'', to_address = ''5To'',
         transfer_amount = Str ''5'', tip = None\<rparr>
       = Inr (balances_transferKeepAlive ''5To'' 50000000000)
   \<and> bondTx [10] ''5Ctrl'' (Str ''5'') = Inr (staking_bond ''5Ctrl'' 5 ''Staked'')
   \<and> bondExtraTx [10] (Str ''5'') = Inr (staking_bondExtra 5)
   \<and> unbondTx [10] (Str ''5'') = Inr (staking_unbond 5)
   \<and> voteTx [10] True False 7 aye 1 (Str ''5'') = Inr (convictionVoting_vote 7 aye 5)
   \<and> proposalTx [10] (Str ''5'') ''5Ben'' = Inr (treasury_proposeSpend 5 ''5Ben'')"
  by (simp add: transferAmount_Str chainAmount_Str BigInt_of_dec_digits BigInt_of_5
      transfer_tx_def DECIMALS_def sibling_string_amounts)

subsection \<open>Negative amounts\<close>









subsection \<open>Tracking\<close>

lemma status_callback_quiet:
  "quiet (result_status r) \<Longrightarrow> status_callback label reg mk r = NoAction"
  by (cases "result_status r") (simp_all add: quiet_def status_callback_def)

lemma settle_NoAction: "settle p NoAction = p"
  by (cases p) (simp_all add: settle_def)

lemma settle_settled: "p \<noteq> Pending \<Longrightarrow> settle p outcome = p"
  by (cases p) (simp_all add: settle_def)

lemma deliver_append:
  "deliver cb p es (xs @ ys) = deliver cb (fst (deliver cb p es xs)) (snd (deliver cb p es xs)) ys"
proof (induction xs arbitrary: p es)
  case Nil
  show ?case by simp
next
  case (Cons r xs)
  then show ?case by (cases "cb r") simp_all
qed

lemma deliver_quiet:
  assumes "\<forall>r \<in> set us. quiet (result_status r)"
  shows "deliver (status_callback label reg mk) p es us = (p, es)"
  using assms by (induction us) (simp_all add: status_callback_quiet settle_NoAction)

lemma deliver_quiet_updates:
  "deliver (status_callback label reg mk) p es (quiet_updates us) = (p, es)"
  by (rule deliver_quiet) (simp add: quiet_updates_def)

lemma deliver_settled:
  "p \<noteq> Pending \<Longrightarrow> fst (deliver cb p es rs) = p"
proof (induction rs arbitrary: es)
  case Nil
  then show ?case by simp
next
  case (Cons r rs)
  then show ?case by (cases "cb r") (simp_all add: settle_settled)
qed

lemma deliver_step:
  "cb r = Resolve v \<Longrightarrow> fst (deliver cb Pending es (r # rs)) = Fulfilled v"
  "cb r = Reject msg \<Longrightarrow> fst (deliver cb Pending es (r # rs)) = Rejected msg"
  by (simp_all add: settle_def deliver_settled)

lemma callback_decoded:
  "status_callback label reg mk r =
     (case result_status r of
        InBlock blockHash \<Rightarrow>
          (case dispatchError r of
             None \<Rightarrow> Resolve (mk blockHash (result_events r))
           | Some NonModule \<Rightarrow> Reject (label @ '' failed'')
           | Some (Module m) \<Rightarrow>
               (case reg m of None \<Rightarrow> Throws MetaErrorNotFound | Some d \<Rightarrow> Reject (decoded_message d)))
      | st \<Rightarrow>
          if st = Error \<or> st = Dropped \<or> st = Invalid
          then Reject (label @ '' failed with status: '' @ status_type st)
          else NoAction)"
  by (simp add: status_callback_def decoded_message_def
      split: extrinsic_status.splits option.splits dispatch_error.splits)

lemma track_prefix:
  assumes "\<forall>u \<in> set pre. quiet (result_status u)"
  shows "submitAndTrack (status_callback label reg mk) (Delivered (pre @ rs))
           = deliver (status_callback label reg mk) Pending [] rs"
  by (simp add: submitAndTrack_def deliver_append deliver_quiet [OF assms])

lemma settles_Resolve:
  assumes "\<forall>u \<in> set pre. quiet (result_status u)"
      and "status_callback label reg mk r = Resolve v"
  shows "promise_state (submitAndTrack (status_callback label reg mk) (Delivered (pre @ r # post)))
           = Fulfilled v"
  unfolding promise_state_def track_prefix [OF assms(1)]
  by (rule deliver_step(1) [where cb = "status_callback label reg mk" and r = r, OF assms(2)])

lemma settles_Reject:
  assumes "\<forall>u \<in> set pre. quiet (result_status u)"
      and "status_callback label reg mk r = Reject msg"
  shows "promise_state (submitAndTrack (status_callback label reg mk) (Delivered (pre @ r # post)))
           = Rejected msg"
  unfolding promise_state_def track_prefix [OF assms(1)]
  by (rule deliver_step(2) [where cb = "status_callback label reg mk" and r = r, OF assms(2)])

lemma deliver_throw:
  assumes "status_callback label reg mk r = Throws e"
  shows "submitAndTrack (status_callback label reg mk) (Delivered (quiet_updates pre @ r # rs))
           = deliver (status_callback label reg mk) Pending [e] rs"
  using assms by (simp add: submitAndTrack_def deliver_append deliver_quiet_updates)

text \<open>
  Claim C4, as amended.  Let the status stream reach \<open>InBlock\<close> after updates on
  which the callback does nothing.  If the \<open>InBlock\<close> update carries no dispatch
  error, the promise is fulfilled at that update: by \<open>transfer\<close> with the extrinsic
  hash, the block hash and the events, by \<open>bond\<close>, \<open>bondExtra\<close>, \<open>nominate\<close>,
  \<open>unbond\<close>, \<open>withdrawUnbonded\<close>, \<open>voteOnReferendum\<close> and \<open>submitTreasuryProposal\<close>
  with the extrinsic hash only.  If it carries a dispatch error that is not a
  module error, the promise is rejected with the generic message of the
  operation; if it carries a module error that the registry resolves, with the
  decoded message.  In these three cases the promise is settled at \<open>InBlock\<close> and
  no later update changes it.
\<close>

theorem settles_at_InBlock:
  assumes pre: "\<forall>u \<in> set pre. quiet (result_status u)"
      and r: "result_status r = InBlock blockHash"
  shows "(dispatchError r = None \<longrightarrow>
            promise_state (submitAndTrack (status_callback label findMetaError mk) (Delivered (pre @ r # post)))
              = Fulfilled (mk blockHash (result_events r)))
       \<and> (dispatchError r = Some NonModule \<longrightarrow>
            promise_state (submitAndTrack (status_callback label findMetaError mk) (Delivered (pre @ r # post)))
              = Rejected (label @ '' failed''))
       \<and> (\<forall>m d. dispatchError r = Some (Module m) \<and> findMetaError m = Some d \<longrightarrow>
            promise_state (submitAndTrack (status_callback label findMetaError mk) (Delivered (pre @ r # post)))
              = Rejected (decoded_message d))
       \<and> (dispatchError r = None \<or> dispatchError r = Some NonModule
            \<or> (\<exists>m d. dispatchError r = Some (Module m) \<and> findMetaError m = Some d) \<longrightarrow>
            promise_state (submitAndTrack (status_callback label findMetaError mk) (Delivered (pre @ [r])))
              \<noteq> Pending
            \<and> promise_state (submitAndTrack (status_callback label findMetaError mk) (Delivered (pre @ r # post)))
              = promise_state (submitAndTrack (status_callback label findMetaError mk) (Delivered (pre @ [r]))))
       \<and> (dispatchError r = None \<longrightarrow>
            promise_state (submitAndTrack (transfer_callback findMetaError txHash) (Delivered (pre @ r # post)))
              = Fulfilled \<lparr>tx_hash = txHash, block_hash = Some blockHash, success = True,
                   tx_events = Some (map (\<lambda>record. (phase record, event record)) (result_events r))\<rparr>
            \<and> (\<forall>cb \<in> set [bond_callback, bondExtra_callback, nominate_callback, unbond_callback,
                            withdrawUnbonded_callback, vote_callback, proposal_callback].
                 promise_state (submitAndTrack (cb findMetaError txHash) (Delivered (pre @ r # post)))
                   = Fulfilled txHash))"
proof -
  let ?st = "\<lambda>rs. promise_state (submitAndTrack (status_callback label findMetaError mk)
                 (Delivered (pre @ r # rs)))"
  have cb1: "status_callback lbl findMetaError mk' r = Resolve (mk' blockHash (result_events r))"
    if "dispatchError r = None" for lbl and mk' :: "string \<Rightarrow> EventRecord list \<Rightarrow> 'b"
    by (simp add: callback_decoded r that)
  have c1: "?st rs = Fulfilled (mk blockHash (result_events r))" if "dispatchError r = None" for rs
    by (rule settles_Resolve [OF pre cb1 [OF that]])
  have c2: "?st rs = Rejected (label @ '' failed'')" if "dispatchError r = Some NonModule" for rs
    by (rule settles_Reject [OF pre]) (simp add: callback_decoded r that)
  have c3: "?st rs = Rejected (decoded_message d)"
    if "dispatchError r = Some (Module m)" "findMetaError m = Some d" for rs m d
    by (rule settles_Reject [OF pre]) (simp add: callback_decoded r that)
  have c4: "?st [] \<noteq> Pending \<and> ?st post = ?st []"
    if "dispatchError r = None \<or> dispatchError r = Some NonModule
          \<or> (\<exists>m d. dispatchError r = Some (Module m) \<and> findMetaError m = Some d)"
    using that c1 [of "[]"] c1 [of post] c2 [of "[]"] c2 [of post] c3 [of _ _ "[]"] c3 [of _ _ post]
    by (elim disjE exE conjE) simp_all
  have t: "promise_state (submitAndTrack (transfer_callback findMetaError txHash) (Delivered (pre @ r # post)))
              = Fulfilled \<lparr>tx_hash = txHash, block_hash = Some blockHash, success = True,
                   tx_events = Some (map (\<lambda>record. (phase record, event record)) (result_events r))\<rparr>"
    if "dispatchError r = None"
    unfolding transfer_callback_def by (rule settles_Resolve [OF pre cb1 [OF that]])
  have h: "promise_state (submitAndTrack (status_callback lbl findMetaError (\<lambda>_ _. txHash))
              (Delivered (pre @ r # post))) = Fulfilled txHash"
    if "dispatchError r = None" for lbl
    by (rule settles_Resolve [OF pre cb1 [OF that]])
  have hs: "\<forall>cb \<in> set [bond_callback, bondExtra_callback, nominate_callback, unbond_callback,
                            withdrawUnbonded_callback, vote_callback, proposal_callback].
                 promise_state (submitAndTrack (cb findMetaError txHash) (Delivered (pre @ r # post)))
                   = Fulfilled txHash"
    if "dispatchError r = None"
    by (simp add: h [OF that] bond_callback_def bondExtra_callback_def nominate_callback_def
          unbond_callback_def withdrawUnbonded_callback_def vote_callback_def proposal_callback_def)
  show ?thesis
  proof (intro conjI impI allI)
    show "?st post = Fulfilled (mk blockHash (result_events r))" if "dispatchError r = None"
      by (rule c1 [OF that])
    show "?st post = Rejected (label @ '' failed'')" if "dispatchError r = Some NonModule"
      by (rule c2 [OF that])
    show "?st post = Rejected (decoded_message d)"
      if "dispatchError r = Some (Module m) \<and> findMetaError m = Some d" for m d
      using that by (auto intro: c3)
    show "?st [] \<noteq> Pending"
      if "dispatchError r = None \<or> dispatchError r = Some NonModule
          \<or> (\<exists>m d. dispatchError r = Some (Module m) \<and> findMetaError m = Some d)"
      using c4 [OF that] by simp
    show "?st post = ?st []"
      if "dispatchError r = None \<or> dispatchError r = Some NonModule
          \<or> (\<exists>m d. dispatchError r = Some (Module m) \<and> findMetaError m = Some d)"
      using c4 [OF that] by simp
  qed (rule t, assumption, rule hs, assumption)
qed

theorem settles_at_InBlock_witness:
  "list_all (\<lambda>u. quiet (result_status u)) [update Ready, update Broadcast]
   \<and> result_status (in_block None) = InBlock ''0xb10c''
   \<and> promise_state (submitAndTrack (transfer_callback sample_registry ''0x7a'')
         (Delivered ([update Ready, update Broadcast] @ in_block None # [update (Finalized ''0xb10c'')])))
       = Fulfilled \<lparr>tx_hash = ''0x7a'', block_hash = Some ''0xb10c'', success = True,
                    tx_events = Some [(''ApplyExtrinsic(1)'', ''balances.Transfer'')]\<rparr>
   \<and> promise_state (submitAndTrack (bond_callback sample_registry ''0x7a'')
         (Delivered ([update Ready, update Broadcast]
                     @ in_block (Some (Module \<lparr>pallet_index = 5, error_index = 2\<rparr>))
                     # [update (Finalized ''0xb10c'')])))
       = Rejected ''balances.InsufficientBalance: Balance too low to send value.''"
proof -
  let ?pre = "[update Ready, update Broadcast]"
  let ?post = "[update (Finalized ''0xb10c'')]"
  let ?m = "\<lparr>pallet_index = 5, error_index = 2\<rparr>"
  let ?d = "\<lparr>err_section = ''balances'', err_name = ''InsufficientBalance'',
             err_docs = [''Balance too low to send value.'']\<rparr>"
  have pre: "\<forall>u \<in> set ?pre. quiet (result_status u)"
    by (simp add: update_def quiet_def)
  have r1: "result_status (in_block None) = InBlock ''0xb10c''"
    and r2: "result_status (in_block (Some (Module ?m))) = InBlock ''0xb10c''"
    by (simp_all add: in_block_def)
  have d1: "dispatchError (in_block None) = None"
    and d2: "dispatchError (in_block (Some (Module ?m))) = Some (Module ?m) \<and> sample_registry ?m = Some ?d"
    by (simp_all add: in_block_def sample_registry_def)
  note t1 = settles_at_InBlock [OF pre r1, of "''Bonding''" sample_registry "\<lambda>_ _. ''0x7a''" ?post "''0x7a''"]
  note t2 = settles_at_InBlock [OF pre r2, of "''Bonding''" sample_registry "\<lambda>_ _. ''0x7a''" ?post "''0x7a''"]
  have a: "promise_state (submitAndTrack (transfer_callback sample_registry ''0x7a'')
         (Delivered (?pre @ in_block None # ?post)))
       = Fulfilled \<lparr>tx_hash = ''0x7a'', block_hash = Some ''0xb10c'', success = True,
                    tx_events = Some [(''ApplyExtrinsic(1)'', ''balances.Transfer'')]\<rparr>"
  proof -
    from t1 d1 have "promise_state (submitAndTrack (transfer_callback sample_registry ''0x7a'')
         (Delivered (?pre @ in_block None # ?post)))
       = Fulfilled \<lparr>tx_hash = ''0x7a'', block_hash = Some ''0xb10c'', success = True,
            tx_events = Some (map (\<lambda>record. (phase record, event record)) (result_events (in_block None)))\<rparr>"
      by blast
    then show ?thesis by (simp add: in_block_def)
  qed
  have "promise_state (submitAndTrack (status_callback ''Bonding'' sample_registry (\<lambda>_ _. ''0x7a''))
         (Delivered (?pre @ in_block (Some (Module ?m)) # ?post)))
       = Rejected (decoded_message ?d)"
    using t2 d2 by blast
  then have b: "promise_state (submitAndTrack (bond_callback sample_registry ''0x7a'')
         (Delivered (?pre @ in_block (Some (Module ?m)) # ?post)))
       = Rejected ''balances.InsufficientBalance: Balance too low to send value.''"
    by (simp add: bond_callback_def decoded_message_def)
  have q: "list_all (\<lambda>u. quiet (result_status u)) ?pre"
    using pre by (simp add: list_all_iff)
  from q r1 a b show ?thesis by blast
qed

text \<open>
  Claim C4 as stated fails.  A dispatch error that is not a module error rejects
  the promise; and \<open>bond\<close> resolves with the extrinsic hash alone, without block
  hash or events.
\<close>

theorem non_module_error_rejected_counterexample:
  "submitAndTrack (transfer_callback sample_registry ''0x7a'') (Delivered [in_block (Some NonModule)])
     = (Rejected ''Transaction failed'', [])
   \<and> submitAndTrack (bond_callback sample_registry ''0x7a'') (Delivered [in_block None])
     = (Fulfilled ''0x7a'', [])"
  by (simp add: submitAndTrack_def transfer_callback_def bond_callback_def status_callback_def
      in_block_def settle_def)

text \<open>
  Claim C5.  When the registry cannot resolve the module error (5, 2) of an
  \<open>InBlock\<close> update, \<open>findMetaError\<close> throws inside the callback and nothing
  catches it: \<open>reject\<close> is not called at that update, and the promise is still
  pending after any later updates on which the callback does nothing, such as
  \<open>Finalized\<close>.  The generic message is never reported: a later \<open>Dropped\<close> update
  rejects with the message of that status.  When the registry resolves the
  error, the callback rejects with \<open>section.name: docs\<close>.
\<close>

theorem unresolvable_module_error_escapes_callback:
  "status_callback label (findMetaError(\<lparr>pallet_index = 5, error_index = 2\<rparr> := None)) mk
      \<lparr>result_status = InBlock blockHash, result_events = evs,
       dispatchError = Some (Module \<lparr>pallet_index = 5, error_index = 2\<rparr>)\<rparr>
     = Throws MetaErrorNotFound
   \<and> submitAndTrack
        (status_callback label (findMetaError(\<lparr>pallet_index = 5, error_index = 2\<rparr> := None)) mk)
        (Delivered (quiet_updates pre
                    @ \<lparr>result_status = InBlock blockHash, result_events = evs,
                        dispatchError = Some (Module \<lparr>pallet_index = 5, error_index = 2\<rparr>)\<rparr>
                    # quiet_updates post))
     = (Pending, [MetaErrorNotFound])
   \<and> submitAndTrack
        (transfer_callback (findMetaError(\<lparr>pallet_index = 5, error_index = 2\<rparr> := None)) txHash)
        (Delivered [\<lparr>result_status = InBlock blockHash, result_events = evs,
                      dispatchError = Some (Module \<lparr>pallet_index = 5, error_index = 2\<rparr>)\<rparr>,
                    update (Finalized blockHash)])
     = (Pending, [MetaErrorNotFound])
   \<and> submitAndTrack
        (bond_callback (findMetaError(\<lparr>pallet_index = 5, error_index = 2\<rparr> := None)) txHash)
        (Delivered [\<lparr>result_status = InBlock blockHash, result_events = evs,
                      dispatchError = Some (Module \<lparr>pallet_index = 5, error_index = 2\<rparr>)\<rparr>,
                    update (Finalized blockHash)])
     = (Pending, [MetaErrorNotFound])
   \<and> submitAndTrack
        (transfer_callback (findMetaError(\<lparr>pallet_index = 5, error_index = 2\<rparr> := None)) txHash)
        (Delivered [\<lparr>result_status = InBlock blockHash, result_events = evs,
                      dispatchError = Some (Module \<lparr>pallet_index = 5, error_index = 2\<rparr>)\<rparr>,
                    update Dropped])
     = (Rejected ''Transaction failed with status: Dropped'', [MetaErrorNotFound])
   \<and> transfer_callback (findMetaError(\<lparr>pallet_index = 5, error_index = 2\<rparr> := Some d)) txHash
      \<lparr>result_status = InBlock blockHash, result_events = evs,
       dispatchError = Some (Module \<lparr>pallet_index = 5, error_index = 2\<rparr>)\<rparr>
     = Reject (err_section d @ ''.'' @ err_name d @ '': '' @ array_toString (err_docs d))
   \<and> transfer_callback sample_registry txHash
      \<lparr>result_status = InBlock blockHash, result_events = evs,
       dispatchError = Some (Module \<lparr>pallet_index = 5, error_index = 2\<rparr>)\<rparr>
     = Reject ''balances.InsufficientBalance: Balance too low to send value.''"
proof -
  let ?reg = "findMetaError(\<lparr>pallet_index = 5, error_index = 2\<rparr> := None)"
  let ?r = "\<lparr>result_status = InBlock blockHash, result_events = evs,
              dispatchError = Some (Module \<lparr>pallet_index = 5, error_index = 2\<rparr>)\<rparr>"
  have th: "status_callback lbl ?reg mk' ?r = Throws MetaErrorNotFound"
    for lbl and mk' :: "string \<Rightarrow> EventRecord list \<Rightarrow> 'b"
    by (simp add: status_callback_def)
  have b: "submitAndTrack (status_callback label ?reg mk)
             (Delivered (quiet_updates pre @ ?r # quiet_updates post)) = (Pending, [MetaErrorNotFound])"
    by (simp only: deliver_throw [OF th] deliver_quiet_updates)
  show ?thesis
    by (simp add: th b)
       (simp add: submitAndTrack_def transfer_callback_def bond_callback_def status_callback_def
          update_def settle_def status_type_def sample_registry_def)
qed

subsection \<open>The staking view\<close>

text \<open>
  Claim C8.  For every ledger and every current era, the redeemable amount that
  \<open>getStakingInfo\<close> returns is the decimal rendering of the exact integer sum of
  the amounts of exactly those unlocking chunks whose era is at most the current
  era, and parsing it back with \<open>BigInt\<close> gives that sum.  For the chunks
  (100, era 5), (50, era 10) it is 100 at era 7, 150 at era 10 and 0 at era 4.
\<close>

theorem redeemable_is_exact_sum_of_elapsed_chunks:
  "map_sum id redeemable (getStakingInfo (Some ledger) noms (Some currentEra))
      = Inr (dec_digits (sum_list (map chunk_value
               (filter (\<lambda>c. chunk_era c \<le> currentEra) (unlocking ledger)))))
   \<and> map_sum id (BigInt_of_string \<circ> redeemable) (getStakingInfo (Some ledger) noms (Some currentEra))
      = Inr (Inr (int (sum_list (map chunk_value
               (filter (\<lambda>c. chunk_era c \<le> currentEra) (unlocking ledger))))))
   \<and> map_sum id redeemable
        (getStakingInfo (Some \<lparr>active = a, unlocking = spec_chunks\<rparr>) noms (Some 7)) = Inr ''100''
   \<and> map_sum id redeemable
        (getStakingInfo (Some \<lparr>active = a, unlocking = spec_chunks\<rparr>) noms (Some 10)) = Inr ''150''
   \<and> map_sum id redeemable
        (getStakingInfo (Some \<lparr>active = a, unlocking = spec_chunks\<rparr>) noms (Some 4)) = Inr ''0''"
proof -
  have d100: "dec_digits 100 = ''100''" by code_simp
  have d150: "dec_digits 150 = ''150''" by code_simp
  show ?thesis
    by (simp add: getStakingInfo_Some BigInt_of_dec_digits spec_chunks_def d100 d150 dec_digits_0)
qed

text \<open>
  Claim C9, as amended.  When the ledger query returns nothing, the view has
  bonded amount 0, no unbonding entries and redeemable amount 0; its nomination
  targets are whatever the separate nominators query returned, so they are absent
  only when that query returned nothing as well.
\<close>

theorem absent_ledger_view:
  "getStakingInfo None noms currentEra =
     Inr \<lparr>bonded = ''0'', unbonding = [], redeemable = ''0'', nominations = noms\<rparr>"
  by (cases noms) (simp_all add: getStakingInfo_def)

text \<open>
  Claim C9 as stated fails: with no ledger but a nominator record for the address,
  the result is not the zero-value view, since it carries the nomination targets.
\<close>

theorem absent_ledger_keeps_nominations_counterexample:
  "getStakingInfo None (Some [''5GrwvaEF'']) (Some 7) \<noteq>
     Inr \<lparr>bonded = ''0'', unbonding = [], redeemable = ''0'', nominations = None\<rparr>
   \<and> map_sum id nominations (getStakingInfo None (Some [''5GrwvaEF'']) (Some 7))
       = Inr (Some [''5GrwvaEF''])"
  by (simp add: getStakingInfo_def)

subsection \<open>The proposal listing\<close>

lemma parse_entries_Nil: "parse_entries mk [] = ([], [])"
  by (simp add: parse_entries_def)

lemma parse_entries_Cons:
  "parse_entries mk (e # es) =
     ((case fst (parse_entry mk e) of None \<Rightarrow> [] | Some p \<Rightarrow> [p]) @ fst (parse_entries mk es),
      snd (parse_entry mk e) @ snd (parse_entries mk es))"
  by (simp add: parse_entries_def Let_def split: option.splits)

lemma parse_entries_append:
  "parse_entries mk (xs @ ys) =
     (fst (parse_entries mk xs) @ fst (parse_entries mk ys),
      snd (parse_entries mk xs) @ snd (parse_entries mk ys))"
  by (simp add: parse_entries_def Let_def)

lemma parse_entry_fst: "fst (parse_entry mk e) = decoded_ongoing mk e"
  by (auto simp: parse_entry_def try_entry_def decoded_ongoing_def
      split: option.splits referendum_info.splits)

lemma parse_entry_snd:
  "length (snd (parse_entry mk e)) = (if undecodable e then 1 else 0)"
  by (auto simp: parse_entry_def try_entry_def undecodable_def
      split: option.splits referendum_info.splits)

lemma parse_entries_fst:
  "fst (parse_entries mk es) = List.map_filter (decoded_ongoing mk) es"
proof (induction es)
  case Nil
  show ?case by (simp add: parse_entries_Nil map_filter_simps)
next
  case (Cons e es)
  then show ?case
    by (cases "decoded_ongoing mk e") (simp_all add: parse_entries_Cons parse_entry_fst map_filter_simps)
qed

lemma parse_entries_snd_length:
  "length (snd (parse_entries mk es)) = length (filter undecodable es)"
  by (induction es) (simp_all add: parse_entries_Nil parse_entries_Cons parse_entry_snd)

text \<open>
  Claim C7.  Both parsers decode every entry on its own: the result is exactly the
  list of the entries that decode to an ongoing referendum, in order; every entry
  that fails to decode is left out and logged once; parsing a concatenation is
  parsing the parts, so no entry affects another and no failure ends the listing.
  On the five sample entries the result holds the referenda 1 and 4 and two
  warnings are logged.
\<close>

theorem entries_decoded_independently:
  "fst (parseOpenGovProposals es) = List.map_filter (decoded_ongoing og_proposal) es
   \<and> length (snd (parseOpenGovProposals es)) = length (filter undecodable es)
   \<and> fst (parseLegacyProposals ls) = List.map_filter (decoded_ongoing legacy_proposal) ls
   \<and> length (snd (parseLegacyProposals ls)) = length (filter undecodable ls)
   \<and> parseOpenGovProposals (es @ es') =
       (fst (parseOpenGovProposals es) @ fst (parseOpenGovProposals es'),
        snd (parseOpenGovProposals es) @ snd (parseOpenGovProposals es'))
   \<and> parseLegacyProposals (ls @ ls') =
       (fst (parseLegacyProposals ls) @ fst (parseLegacyProposals ls'),
        snd (parseLegacyProposals ls) @ snd (parseLegacyProposals ls'))
   \<and> map index (fst (parseLegacyProposals sample_entries)) = [1, 4]
   \<and> snd (parseLegacyProposals sample_entries) = [DecodeFailure, UnwrapNone]"
proof (intro conjI)
  show "map index (fst (parseLegacyProposals sample_entries)) = [1, 4]"
    by (simp add: parseLegacyProposals_def parse_entries_def parse_entry_def try_entry_def
        sample_entries_def legacy_proposal_def)
  show "snd (parseLegacyProposals sample_entries) = [DecodeFailure, UnwrapNone]"
    by (simp add: parseLegacyProposals_def parse_entries_def parse_entry_def try_entry_def
        sample_entries_def)
qed (simp_all only: parseOpenGovProposals_def parseLegacyProposals_def parse_entries_fst
       parse_entries_snd_length parse_entries_append)

subsection \<open>Voting information\<close>

text \<open>
  Claim C10.  Where the conviction-voting storage exists, \<open>getVotingInfo\<close> does not
  depend on the referendum index: for any two indices it issues the same single
  query, \<open>votingFor(account, 0)\<close>, and returns the same value.
\<close>

theorem voting_info_ignores_referendum_index:
  assumes "convictionVoting_votingFor api \<noteq> None"
  shows "getVotingInfo api account i = getVotingInfo api account j
         \<and> issued (getVotingInfo api account i) = [VotingFor account 0]"
  using assms by (auto simp: getVotingInfo_def split: option.splits sum.splits)

theorem voting_info_ignores_referendum_index_witness:
  "convictionVoting_votingFor both_schemas \<noteq> None
   \<and> getVotingInfo both_schemas ''alice'' 3 = getVotingInfo both_schemas ''alice'' 8
   \<and> issued (getVotingInfo both_schemas ''alice'' 3) = [VotingFor ''alice'' 0]
   \<and> returned (getVotingInfo both_schemas ''alice'' 3) = Some ''alice votes on track 0''"
proof -
  have h: "convictionVoting_votingFor both_schemas \<noteq> None"
    by (simp add: both_schemas_def)
  have r: "returned (getVotingInfo both_schemas ''alice'' 3) = Some ''alice votes on track 0''"
    by (simp add: getVotingInfo_def both_schemas_def dec_digits_0)
  note t = voting_info_ignores_referendum_index [OF h, of "''alice''" 3 8]
  show ?thesis
    by (rule conjI [OF h conjI [OF conjunct1 [OF t] conjI [OF conjunct2 [OF t] r]]])
qed

subsection \<open>Probing the two governance schemas\<close>

text \<open>
  Claim C6, as amended.  \<open>getActiveProposals\<close> queries the democracy storage exactly
  when the referenda storage does not exist (and the democracy storage does); an
  existing but empty referenda storage gives the empty listing with no further
  query.  \<open>getReferendumDetails\<close> queries the referenda storage first when it
  exists; it goes on to query the democracy storage exactly when that exists and
  the referenda storage is missing or answered without an ongoing entry at the
  index.  It returns the ongoing referenda entry if there is one, otherwise the
  ongoing democracy entry if there is one, otherwise nothing; a query that fails
  gives nothing as well, never an error.
\<close>

theorem legacy_probe_conditions:
  "(DemocracyEntries \<in> set (issued (getActiveProposals api)) \<longleftrightarrow>
      referenda_referendumInfoFor api = None \<and> democracy_referendumInfoOf api \<noteq> None)
   \<and> (\<forall>sm. referenda_referendumInfoFor api = Some sm \<and> sm_entries sm = Inr [] \<longrightarrow>
         getActiveProposals api = \<lparr>issued = [ReferendaEntries], warned = [], returned = []\<rparr>)
   \<and> (referenda_referendumInfoFor api \<noteq> None \<longrightarrow>
         take 1 (issued (getReferendumDetails api i)) = [ReferendaAt i])
   \<and> (DemocracyAt i \<in> set (issued (getReferendumDetails api i)) \<longleftrightarrow>
        democracy_referendumInfoOf api \<noteq> None
        \<and> ongoing_at (referenda_referendumInfoFor api) i og_proposal = None
        \<and> \<not> query_fails (referenda_referendumInfoFor api) i)
   \<and> returned (getReferendumDetails api i) =
       (case ongoing_at (referenda_referendumInfoFor api) i og_proposal of
          Some p \<Rightarrow> Some p
        | None \<Rightarrow>
            if query_fails (referenda_referendumInfoFor api) i then None
            else ongoing_at (democracy_referendumInfoOf api) i legacy_proposal)"
  by (auto simp: getActiveProposals_def getReferendumDetails_def legacy_details_def
        ongoing_at_def query_fails_def Let_def parseOpenGovProposals_def parseLegacyProposals_def
        parse_entries_def
        split: option.splits sum.splits referendum_info.splits prod.splits)

theorem legacy_probe_conditions_witness:
  "referenda_referendumInfoFor both_schemas \<noteq> None
   \<and> getActiveProposals both_schemas = \<lparr>issued = [ReferendaEntries], warned = [], returned = []\<rparr>
   \<and> DemocracyEntries \<notin> set (issued (getActiveProposals both_schemas))
   \<and> take 1 (issued (getReferendumDetails both_schemas 3)) = [ReferendaAt 3]
   \<and> DemocracyAt 3 \<in> set (issued (getReferendumDetails both_schemas 3))
   \<and> returned (getReferendumDetails both_schemas 3)
       = Some (legacy_proposal 3 ''0x01'' \<lparr>end_block = Some 100\<rparr>)
   \<and> returned (getReferendumDetails both_schemas 4) = None"
proof -
  have h: "referenda_referendumInfoFor both_schemas \<noteq> None"
    and e: "referenda_referendumInfoFor both_schemas
              = Some \<lparr>sm_entries = Inr [], sm_at = (\<lambda>i. Inr (''0x00'', None))\<rparr>"
    and d: "democracy_referendumInfoOf both_schemas \<noteq> None"
    by (simp_all add: both_schemas_def)
  have o3: "ongoing_at (referenda_referendumInfoFor both_schemas) 3 og_proposal = None"
    and o4: "ongoing_at (referenda_referendumInfoFor both_schemas) 4 og_proposal = None"
    and q: "\<not> query_fails (referenda_referendumInfoFor both_schemas) 3"
        "\<not> query_fails (referenda_referendumInfoFor both_schemas) 4"
    and l3: "ongoing_at (democracy_referendumInfoOf both_schemas) 3 legacy_proposal
              = Some (legacy_proposal 3 ''0x01'' \<lparr>end_block = Some 100\<rparr>)"
    and l4: "ongoing_at (democracy_referendumInfoOf both_schemas) 4 legacy_proposal = None"
    by (simp_all add: both_schemas_def ongoing_at_def query_fails_def)
  note t3 = legacy_probe_conditions [of both_schemas 3]
  note t4 = legacy_probe_conditions [of both_schemas 4]
  have a1: "getActiveProposals both_schemas = \<lparr>issued = [ReferendaEntries], warned = [], returned = []\<rparr>"
    using conjunct1 [OF conjunct2 [OF t3]] e by simp
  have a2: "DemocracyEntries \<notin> set (issued (getActiveProposals both_schemas))"
    using t3 h by blast
  have a3: "take 1 (issued (getReferendumDetails both_schemas 3)) = [ReferendaAt 3]"
    using t3 h by blast
  have a4: "DemocracyAt 3 \<in> set (issued (getReferendumDetails both_schemas 3))"
    using t3 d o3 q(1) by blast
  have "returned (getReferendumDetails both_schemas 3) =
       (case ongoing_at (referenda_referendumInfoFor both_schemas) 3 og_proposal of
          Some p \<Rightarrow> Some p
        | None \<Rightarrow>
            if query_fails (referenda_referendumInfoFor both_schemas) 3 then None
            else ongoing_at (democracy_referendumInfoOf both_schemas) 3 legacy_proposal)"
    using t3 by blast
  then have a5: "returned (getReferendumDetails both_schemas 3)
       = Some (legacy_proposal 3 ''0x01'' \<lparr>end_block = Some 100\<rparr>)"
    by (simp add: o3 q l3)
  have "returned (getReferendumDetails both_schemas 4) =
       (case ongoing_at (referenda_referendumInfoFor both_schemas) 4 og_proposal of
          Some p \<Rightarrow> Some p
        | None \<Rightarrow>
            if query_fails (referenda_referendumInfoFor both_schemas) 4 then None
            else ongoing_at (democracy_referendumInfoOf both_schemas) 4 legacy_proposal)"
    using t4 by blast
  then have a6: "returned (getReferendumDetails both_schemas 4) = None"
    by (simp add: o4 q l4)
  show ?thesis
    by (intro conjI) (fact h a1 a2 a3 a4 a5 a6)+
qed

text \<open>
  Claim C6 as stated fails for \<open>getReferendumDetails\<close>: on a chain with both
  schemas, whose referenda storage has no entry at index 3, the democracy storage
  is queried and its referendum is returned.
\<close>

theorem details_consults_legacy_counterexample:
  "referenda_referendumInfoFor both_schemas \<noteq> None
   \<and> issued (getReferendumDetails both_schemas 3) = [ReferendaAt 3, DemocracyAt 3]
   \<and> map_option author (returned (getReferendumDetails both_schemas 3)) = Some ''Democracy''"
  by (simp add: both_schemas_def getReferendumDetails_def legacy_details_def legacy_proposal_def)

end
